theory Spec2Isabelle
  imports Main
begin

section \<open>Python strings and sequences\<close>

text \<open>
  A line of source text is a \<^typ>\<open>string\<close>; each \<^typ>\<open>char\<close> stands for one code point
  in the range 0..255, so \<^const>\<open>length\<close> is Python's \<^verbatim>\<open>len\<close> on such text.
  \<^verbatim>\<open>str.isspace\<close>, \<^verbatim>\<open>str.strip()\<close> and the regular expression class
  \<^verbatim>\<open>\s\<close> agree on what a whitespace character is: in this range the code points
  9..13, 28..32, 133 and 160.
\<close>

definition py_isspace :: "char \<Rightarrow> bool" where
  "py_isspace c =
     (let n = (of_char c :: nat)
      in (9 \<le> n \<and> n \<le> 13) \<or> (28 \<le> n \<and> n \<le> 32) \<or> n = 133 \<or> n = 160)"

definition py_strip :: "string \<Rightarrow> string" where
  "py_strip s = rev (dropWhile py_isspace (rev (dropWhile py_isspace s)))"

text \<open>
  The exceptions. \<^verbatim>\<open>NoMatchError\<close> carries the parser and the candidates,
  \<^verbatim>\<open>IndentationError\<close> a message, a line and a column. \<^verbatim>\<open>TypeError\<close>,
  \<^verbatim>\<open>IndexError\<close> and \<^verbatim>\<open>AttributeError\<close> are Python's own.
\<close>

datatype ('p, 'k) error =
    NoMatchError 'p "'k list"
  | IndentationError string int int
  | TypeError
  | IndexError
  | AttributeError

text \<open>
  \<^verbatim>\<open>isinstance(exc, ParseError)\<close>: \<^verbatim>\<open>NoMatchError\<close> and \<^verbatim>\<open>IndentationError\<close> are
  the two subclasses of \<^verbatim>\<open>ParseError\<close>.
\<close>

fun is_ParseError :: "('p, 'k) error \<Rightarrow> bool" where
  "is_ParseError (NoMatchError p ks) = True"
| "is_ParseError (IndentationError message l c) = True"
| "is_ParseError _ = False"

text \<open>
  The calls \<^verbatim>\<open>ParseError(message)\<close> and \<^verbatim>\<open>ParseError(message, cursor)\<close>. The class
  \<^verbatim>\<open>ParseError\<close> of parser.py is declared with \<^verbatim>\<open>attr.s\<close> and has no attribute,
  so the \<^verbatim>\<open>__init__\<close> generated for it takes no argument: a call with a message, or
  with a message and a cursor, raises \<^verbatim>\<open>TypeError\<close>. In
  \<^verbatim>\<open>raise ParseError(message, cursor)\<close> the call is evaluated first, so the exception
  that the statement ends with is that \<^verbatim>\<open>TypeError\<close>; no \<^verbatim>\<open>ParseError\<close> object
  comes to exist.
\<close>

definition ParseError_call :: "string \<Rightarrow> 'p option \<Rightarrow> ('p, 'k) error" where
  "ParseError_call message cursor = TypeError"

text \<open>
  Indexing a tuple: a negative index counts from the end, an index outside
  \<^verbatim>\<open>-len .. len-1\<close> raises \<^verbatim>\<open>IndexError\<close>.
\<close>

definition py_getitem :: "'a list \<Rightarrow> int \<Rightarrow> ('p, 'k) error + 'a" where
  "py_getitem xs i =
     (if 0 \<le> i \<and> i < int (length xs) then Inr (xs ! nat i)
      else if i < 0 \<and> - int (length xs) \<le> i then Inr (xs ! nat (int (length xs) + i))
      else Inl IndexError)"

section \<open>Symbols and the parse cursor (compiler/parser.py)\<close>

text \<open>The four span attributes of class \<^verbatim>\<open>Token\<close>.\<close>

record span =
  first_line :: int
  next_line :: int
  first_column :: int
  next_column :: int

text \<open>
  Class \<^verbatim>\<open>Argument\<close> of compiler/language_models/argument\_list.py. The variable
  is an instance of \<^verbatim>\<open>expression.Variable\<close>, a class defined outside these sources:
  its content is the type parameter.
\<close>

record 'v argument =
  variable :: 'v
  is_positional :: bool
  is_keyword :: bool
  is_extra :: bool

text \<open>
  The instances of \<^verbatim>\<open>Symbol\<close>. The five token classes of parser.py carry their span,
  \<^verbatim>\<open>BeginBlock\<close> and \<^verbatim>\<open>EndBlock\<close> also a block depth.
  \<^verbatim>\<open>Characters[s]\<close>, \<^verbatim>\<open>Always\<close> and \<^verbatim>\<open>Variable\<close> are the classes that
  argument\_list.py tests \<^verbatim>\<open>last_symbol\<close> against; they are declared outside these
  sources and only told apart here.
\<close>

datatype 'v symbol =
    EndFile span
  | BlankLine span
  | EndLine span
  | BeginBlock span int
  | EndBlock span int
  | Characters string
  | Always
  | Variable 'v
  | ArgumentList "'v argument list"

record 'v parser =
  lines :: "string list"
  line :: int
  column :: int
  last_symbol :: "'v symbol option"
  block_depth :: int

definition line_text :: "'v parser \<Rightarrow> ('p, 'k) error + string" where
  "line_text p =
     (if line p < int (length (lines p)) then py_getitem (lines p) (line p) else Inr [])"

definition last_line :: "'v parser \<Rightarrow> int" where
  "last_line p = max 0 (int (length (lines p)) - 1)"

text \<open>
  \<^verbatim>\<open>isinstance(symbol, Token)\<close>, with the span when it holds. These sources apply
  \<^verbatim>\<open>new_from_symbol\<close> to the five token classes and to \<^verbatim>\<open>ArgumentList\<close> only;
  whether the classes declared elsewhere are tokens plays no part below.
\<close>

fun token_span :: "'v symbol \<Rightarrow> span option" where
  "token_span (EndFile s) = Some s"
| "token_span (BlankLine s) = Some s"
| "token_span (EndLine s) = Some s"
| "token_span (BeginBlock s d) = Some s"
| "token_span (EndBlock s d) = Some s"
| "token_span _ = None"

definition new_from_symbol :: "'v parser \<Rightarrow> 'v symbol \<Rightarrow> 'v parser" where
  "new_from_symbol p symbol =
     (let depth = (case symbol of BeginBlock s d \<Rightarrow> d | EndBlock s d \<Rightarrow> d | _ \<Rightarrow> block_depth p);
          ln = (case token_span symbol of Some s \<Rightarrow> next_line s | None \<Rightarrow> line p);
          col = (case token_span symbol of Some s \<Rightarrow> next_column s | None \<Rightarrow> column p)
      in \<lparr> lines = lines p,
           line = min ln (last_line p + 1),
           column = col,
           last_symbol = Some symbol,
           block_depth = depth \<rparr>)"

subsection \<open>Ordered alternation: \<^verbatim>\<open>Parser.parse\<close>\<close>

text \<open>
  A candidate of \<^verbatim>\<open>one_of\<close> is a class; \<open>parse_of\<close> gives the \<^verbatim>\<open>parse\<close> classmethod
  of each. A call returns a parser, returns \<^verbatim>\<open>None\<close>, or raises. The loop runs over the
  candidates still to try; the index \<^verbatim>\<open>i\<close> is \<^verbatim>\<open>len(one_of) - 1\<close> exactly when none
  is left after the current one.
\<close>

type_synonym ('v, 'k) outcome = "('v parser, 'k) error + 'v parser option"

fun parse_loop ::
  "('k \<Rightarrow> 'v parser \<Rightarrow> ('v, 'k) outcome) \<Rightarrow> 'v parser \<Rightarrow> 'k list \<Rightarrow> 'k list \<Rightarrow>
     ('v parser, 'k) error + 'v parser" where
  "parse_loop parse_of self one_of [] = Inl (NoMatchError self one_of)"
| "parse_loop parse_of self one_of (symbol_type # rest) =
     (case parse_of symbol_type self of
        Inl (NoMatchError p ks) \<Rightarrow>
          if rest = [] then Inl (NoMatchError self one_of)
          else parse_loop parse_of self one_of rest
      | Inl exc \<Rightarrow> Inl exc
      | Inr None \<Rightarrow> parse_loop parse_of self one_of rest
      | Inr (Some next_parser) \<Rightarrow> Inr next_parser)"

definition Parser_parse ::
  "('k \<Rightarrow> 'v parser \<Rightarrow> ('v, 'k) outcome) \<Rightarrow> 'v parser \<Rightarrow> 'k list \<Rightarrow>
     ('v parser, 'k) error + 'v parser" where
  "Parser_parse parse_of self one_of = parse_loop parse_of self one_of one_of"

subsection \<open>The indentation depth of the current line\<close>

text \<open>
  \<^verbatim>\<open>_INDENT_REGEX = re.compile(r'^( *)(\s*)')\<close> always matches at the start of the text:
  group 1 is the longest run of the space character, group 2 the longest run of
  whitespace after it. \<open>indent_group1\<close> and \<open>indent_group2\<close> are the two groups, so
  \<^verbatim>\<open>match.start(2)\<close> is the length of group 1 and \<^verbatim>\<open>match.end()\<close> the length of both.
\<close>

definition indent_group1 :: "string \<Rightarrow> string" where
  "indent_group1 t = takeWhile (\<lambda>c. c = CHR '' '') t"

definition indent_group2 :: "string \<Rightarrow> string" where
  "indent_group2 t = takeWhile py_isspace (drop (length (indent_group1 t)) t)"

definition msg_other_whitespace :: string where
  "msg_other_whitespace = ''each block must be indented four spaces (other whitespace found)''"

definition msg_extra_spaces :: string where
  "msg_extra_spaces = ''each block must be indented four spaces (extra spaces found)''"

definition msg_over_indented :: string where
  "msg_over_indented = ''each block must be indented four spaces (block over-indented)''"

definition measure_block_depth :: "'v parser \<Rightarrow> ('p, 'k) error + int" where
  "measure_block_depth p =
     (case line_text p of
        Inl exc \<Rightarrow> Inl exc
      | Inr t \<Rightarrow>
          if indent_group2 t \<noteq> [] then
            Inl (IndentationError msg_other_whitespace (line p) (int (length (indent_group1 t))))
          else
            let indentation = int (length (indent_group1 t) + length (indent_group2 t));
                depth = indentation div 4;
                remainder = indentation mod 4
            in if remainder \<noteq> 0 then
                 Inl (IndentationError msg_extra_spaces (line p) (depth * 4))
               else if block_depth p + 1 < depth then
                 Inl (IndentationError msg_over_indented (line p) ((block_depth p + 1) * 4))
               else Inr depth)"

subsection \<open>The token classes\<close>

definition EndFile_parse :: "'v parser \<Rightarrow> ('v, 'k) outcome" where
  "EndFile_parse p =
     (if line p \<ge> last_line p then
        (case line_text p of
           Inl exc \<Rightarrow> Inl exc
         | Inr t \<Rightarrow>
             if column p \<ge> int (length t) then
               Inr (Some (new_from_symbol p (EndFile
                 \<lparr> first_line = line p, next_line = line p,
                   first_column = column p, next_column = column p \<rparr>)))
             else Inr None)
      else Inr None)"

definition BlankLine_parse :: "'v parser \<Rightarrow> ('v, 'k) outcome" where
  "BlankLine_parse p =
     (if column p \<noteq> 0 then Inr None
      else (case line_text p of
              Inl exc \<Rightarrow> Inl exc
            | Inr t \<Rightarrow>
                if py_strip t = [] then
                  Inr (Some (new_from_symbol p (BlankLine
                    \<lparr> first_line = line p, next_line = line p + 1,
                      first_column = 0, next_column = 0 \<rparr>)))
                else Inr None))"

definition EndLine_parse :: "'v parser \<Rightarrow> ('v, 'k) outcome" where
  "EndLine_parse p =
     (case line_text p of
        Inl exc \<Rightarrow> Inl exc
      | Inr t \<Rightarrow>
          if column p \<ge> int (length t) then
            Inr (Some (new_from_symbol p (EndLine
              \<lparr> first_line = line p, next_line = line p + 1,
                first_column = column p, next_column = 0 \<rparr>)))
          else Inr None)"

definition BeginBlock_parse :: "'v parser \<Rightarrow> ('v, 'k) outcome" where
  "BeginBlock_parse p =
     (if column p \<noteq> 0 then Inr None
      else (case measure_block_depth p of
              Inl exc \<Rightarrow> Inl exc
            | Inr measured \<Rightarrow>
                if block_depth p < measured then
                  Inr (Some (new_from_symbol p (BeginBlock
                    \<lparr> first_line = line p, next_line = line p,
                      first_column = column p, next_column = column p \<rparr>
                    (block_depth p + 1))))
                else Inr None))"

definition EndBlock_parse :: "'v parser \<Rightarrow> ('v, 'k) outcome" where
  "EndBlock_parse p =
     (if column p \<noteq> 0 then Inr None
      else (case measure_block_depth p of
              Inl exc \<Rightarrow> Inl exc
            | Inr measured \<Rightarrow>
                if measured < block_depth p then
                  Inr (Some (new_from_symbol p (EndBlock
                    \<lparr> first_line = line p, next_line = line p,
                      first_column = column p, next_column = column p \<rparr>
                    (block_depth p - 1))))
                else Inr None))"

text \<open>The five token classes, as the candidates that \<^verbatim>\<open>Parser.parse\<close> is given.\<close>

datatype token_type = TEndFile | TBlankLine | TEndLine | TBeginBlock | TEndBlock

fun Token_parse :: "token_type \<Rightarrow> 'v parser \<Rightarrow> ('v, 'k) outcome" where
  "Token_parse TEndFile p = EndFile_parse p"
| "Token_parse TBlankLine p = BlankLine_parse p"
| "Token_parse TEndLine p = EndLine_parse p"
| "Token_parse TBeginBlock p = BeginBlock_parse p"
| "Token_parse TEndBlock p = EndBlock_parse p"

text \<open>The parser that \<^verbatim>\<open>Parser(lines)\<close> constructs: every other attribute at its default.\<close>

definition Parser :: "string list \<Rightarrow> 'v parser" where
  "Parser ls = \<lparr> lines = ls, line = 0, column = 0, last_symbol = None, block_depth = 0 \<rparr>"

section \<open>The argument list (compiler/language\_models/argument\_list.py)\<close>

text \<open>
  \<^verbatim>\<open>ArgumentList.parse\<close> calls two rules that are not part of these sources, and
  they are parameters of the model:
  \<^item> \<open>parse_one_symbol cursor one_of\<close> is \<^verbatim>\<open>cursor.parse_one_symbol(one_of)\<close>, which
    returns a cursor or raises; the candidates are the classes \<^verbatim>\<open>Characters[s]\<close> and
    \<^verbatim>\<open>Always\<close>;
  \<^item> \<open>Variable_parse cursor\<close> is \<^verbatim>\<open>expression.Variable.parse(cursor=cursor,
    parse_annotation=True, parse_initializer=True)\<close>, which returns a cursor, returns
    \<^verbatim>\<open>None\<close>, or raises.
\<close>

datatype marker_type = TCharacters string | TAlways

type_synonym 'v parse_one_symbol =
  "'v parser \<Rightarrow> marker_type list \<Rightarrow> ('v parser, marker_type) error + 'v parser"

type_synonym 'v Variable_parse = "'v parser \<Rightarrow> ('v, marker_type) outcome"

definition marker_candidates :: "marker_type list" where
  "marker_candidates = [TCharacters ''**'', TCharacters ''*'', TCharacters ''/'', TAlways]"

definition separator_candidates :: "marker_type list" where
  "separator_candidates = [TCharacters '','', TAlways]"

text \<open>\<^verbatim>\<open>isinstance(cursor.last_symbol, Characters[s])\<close>.\<close>

definition is_Characters :: "string \<Rightarrow> 'v parser \<Rightarrow> bool" where
  "is_Characters s cursor = (last_symbol cursor = Some (Characters s))"

text \<open>
  \<^verbatim>\<open>isinstance(cursor.last_symbol, expression.Variable)\<close>, with the variable when it
  holds.
\<close>

fun variable_of :: "'v parser \<Rightarrow> 'v option" where
  "variable_of cursor = (case last_symbol cursor of Some (Variable v) \<Rightarrow> Some v | _ \<Rightarrow> None)"

definition msg_multiple_extra_positional :: string where
  \<open>msg_multiple_extra_positional = ''multiple "extra positional" arguments found''\<close>

definition msg_multiple_begin_keyword_only :: string where
  \<open>msg_multiple_begin_keyword_only = ''multiple "begin keyword-only" markers found''\<close>

definition msg_expected_Variable :: string where
  "msg_expected_Variable = ''expected Variable''"

definition msg_multiple_extra_keyword :: string where
  \<open>msg_multiple_extra_keyword = ''multiple "extra keyword" arguments found''\<close>

definition msg_multiple_end_position_only :: string where
  \<open>msg_multiple_end_position_only = ''multiple "end position-only" markers found''\<close>

definition msg_end_after_begin :: string where
  \<open>msg_end_after_begin =
     ''"end position-only" marker found after "begin keyword-only" marker''\<close>

text \<open>The local variables of \<^verbatim>\<open>ArgumentList.parse\<close>.\<close>

record 'v locals =
  cursor :: "'v parser"
  arguments :: "'v argument list"
  saw_end_position_only_marker :: bool
  saw_begin_keyword_only_marker :: bool
  saw_extra_positionals :: bool
  saw_extra_keywords :: bool

definition initial_locals :: "'v parser \<Rightarrow> 'v locals" where
  "initial_locals c =
     \<lparr> cursor = c, arguments = [],
       saw_end_position_only_marker = False, saw_begin_keyword_only_marker = False,
       saw_extra_positionals = False, saw_extra_keywords = False \<rparr>"

text \<open>
  The body of the loop that rewrites the arguments to position-only: an argument
  flagged extra is skipped, any other is replaced.
\<close>

definition position_only :: "'v argument \<Rightarrow> 'v argument" where
  "position_only a =
     (if is_extra a then a
      else \<lparr> variable = variable a, is_positional = True, is_keyword = False,
             is_extra = False \<rparr>)"

text \<open>
  The \<^verbatim>\<open>if\<close>/\<^verbatim>\<open>elif\<close> chain of the loop body, entered with the cursor after the
  marker and the result of \<^verbatim>\<open>Variable.parse\<close>. It raises, or breaks out of the loop
  (\<open>None\<close>), or goes on to the separator with new locals. Reading
  \<^verbatim>\<open>new_cursor.last_symbol\<close> when \<^verbatim>\<open>new_cursor\<close> is \<^verbatim>\<open>None\<close> raises
  \<^verbatim>\<open>AttributeError\<close>. Each \<^verbatim>\<open>raise parser_module.ParseError(...)\<close> is the failing
  call \<open>ParseError_call\<close>: what is raised there is \<^verbatim>\<open>TypeError\<close>.
\<close>

definition dispatch ::
  "'v locals \<Rightarrow> 'v parser \<Rightarrow> 'v parser option \<Rightarrow>
     ('v parser, marker_type) error + 'v locals option" where
  "dispatch l cur new_cursor =
    (if is_Characters ''*'' cur then
       (case new_cursor of
          None \<Rightarrow> Inl AttributeError
        | Some nc \<Rightarrow>
           (case variable_of nc of
              Some v \<Rightarrow>
                if saw_extra_positionals l then
                  Inl (ParseError_call msg_multiple_extra_positional (Some cur))
                else if saw_begin_keyword_only_marker l then
                  Inl (ParseError_call msg_multiple_begin_keyword_only (Some nc))
                else
                  Inr (Some (l\<lparr> cursor := nc,
                    arguments := arguments l @
                      [\<lparr> variable = v, is_positional = True, is_keyword = False,
                         is_extra = True \<rparr>],
                    saw_extra_positionals := True,
                    saw_begin_keyword_only_marker := True \<rparr>))
            | None \<Rightarrow>
                if saw_begin_keyword_only_marker l then
                  Inl (ParseError_call msg_multiple_begin_keyword_only (Some cur))
                else Inr (Some (l\<lparr> cursor := cur, saw_begin_keyword_only_marker := True \<rparr>))))
     else if is_Characters ''**'' cur then
       (case new_cursor of
          None \<Rightarrow> Inl AttributeError
        | Some nc \<Rightarrow>
           (case variable_of nc of
              None \<Rightarrow> Inl (ParseError_call msg_expected_Variable None)
            | Some v \<Rightarrow>
                if saw_extra_keywords l then
                  Inl (ParseError_call msg_multiple_extra_keyword (Some cur))
                else
                  Inr (Some (l\<lparr> cursor := nc,
                    arguments := arguments l @
                      [\<lparr> variable = v, is_positional = False, is_keyword = True,
                         is_extra = True \<rparr>],
                    saw_extra_keywords := True \<rparr>))))
     else if is_Characters ''/'' cur then
       (if saw_end_position_only_marker l then
          Inl (ParseError_call msg_multiple_end_position_only (Some cur))
        else if saw_begin_keyword_only_marker l then
          Inl (ParseError_call msg_end_after_begin (Some cur))
        else
          Inr (Some (l\<lparr> cursor := cur,
            arguments := map position_only (arguments l),
            saw_end_position_only_marker := True \<rparr>)))
     else
       (case new_cursor of
          None \<Rightarrow> Inr None
        | Some nc \<Rightarrow>
           (case variable_of nc of
              Some v \<Rightarrow>
                Inr (Some (l\<lparr> cursor := nc,
                  arguments := arguments l @
                    [\<lparr> variable = v,
                       is_positional = (\<not> saw_begin_keyword_only_marker l),
                       is_keyword = True, is_extra = False \<rparr>] \<rparr>))
            | None \<Rightarrow> Inr None)))"

text \<open>
  One pass through the body of \<^verbatim>\<open>while True\<close>: it raises, or ends with the locals
  and whether the loop goes on (\<open>True\<close>) or was left by \<^verbatim>\<open>break\<close> (\<open>False\<close>).
\<close>

definition loop_body ::
  "'v parse_one_symbol \<Rightarrow> 'v Variable_parse \<Rightarrow> 'v locals \<Rightarrow>
     ('v parser, marker_type) error + (bool \<times> 'v locals)" where
  "loop_body parse_one_symbol Variable_parse l =
    (case parse_one_symbol (cursor l) marker_candidates of
       Inl exc \<Rightarrow> Inl exc
     | Inr cur \<Rightarrow>
        (case Variable_parse cur of
           Inl exc \<Rightarrow> Inl exc
         | Inr new_cursor \<Rightarrow>
            (case dispatch l cur new_cursor of
               Inl exc \<Rightarrow> Inl exc
             | Inr None \<Rightarrow> Inr (False, l\<lparr> cursor := cur \<rparr>)
             | Inr (Some l') \<Rightarrow>
                (case parse_one_symbol (cursor l') separator_candidates of
                   Inl exc \<Rightarrow> Inl exc
                 | Inr cur' \<Rightarrow>
                     Inr (last_symbol cur' \<noteq> Some Always, l'\<lparr> cursor := cur' \<rparr>)))))"

text \<open>
  The loop. With arbitrary rules for the markers and the variable it need not end: the
  result \<open>None\<close> stands for a loop that runs forever.
\<close>

partial_function (option) while_loop ::
  "'v parse_one_symbol \<Rightarrow> 'v Variable_parse \<Rightarrow> 'v locals \<Rightarrow>
     (('v parser, marker_type) error + 'v locals) option" where
  "while_loop parse_one_symbol Variable_parse l =
    (case loop_body parse_one_symbol Variable_parse l of
       Inl exc \<Rightarrow> Some (Inl exc)
     | Inr (again, l') \<Rightarrow>
         if again then while_loop parse_one_symbol Variable_parse l' else Some (Inr l'))"

declare while_loop.simps [code]

definition ArgumentList_parse ::
  "'v parse_one_symbol \<Rightarrow> 'v Variable_parse \<Rightarrow> 'v parser \<Rightarrow>
     (('v parser, marker_type) error + 'v parser) option" where
  "ArgumentList_parse parse_one_symbol Variable_parse cursor0 =
    (case while_loop parse_one_symbol Variable_parse (initial_locals cursor0) of
       None \<Rightarrow> None
     | Some (Inl exc) \<Rightarrow> Some (Inl exc)
     | Some (Inr l) \<Rightarrow>
         Some (Inr (new_from_symbol (cursor l) (ArgumentList (arguments l)))))"

section \<open>Notions used in the statements\<close>

subsection \<open>What a candidate's call amounts to\<close>

text \<open>
  A candidate does not match when its call returns \<^verbatim>\<open>None\<close> or raises
  \<^verbatim>\<open>NoMatchError\<close>.
\<close>

fun is_no_match :: "('v, 'k) outcome \<Rightarrow> bool" where
  "is_no_match (Inr None) = True"
| "is_no_match (Inl (NoMatchError p ks)) = True"
| "is_no_match _ = False"

fun is_NoMatchError :: "('p, 'k) error \<Rightarrow> bool" where
  "is_NoMatchError (NoMatchError p ks) = True"
| "is_NoMatchError _ = False"

subsection \<open>The leading whitespace of a line\<close>

text \<open>
  The notions that the description of \<^verbatim>\<open>_measure_block_depth\<close> uses: the leading
  whitespace of a line, the number of space characters it starts with, and the index of
  the first element of a list that satisfies a predicate.
\<close>

definition leading_whitespace :: "string \<Rightarrow> string" where
  "leading_whitespace t = takeWhile py_isspace t"

definition leading_spaces :: "string \<Rightarrow> nat" where
  "leading_spaces t = length (takeWhile (\<lambda>c. c = CHR '' '') t)"

fun index_where :: "('a \<Rightarrow> bool) \<Rightarrow> 'a list \<Rightarrow> nat" where
  "index_where P [] = 0"
| "index_where P (x # xs) = (if P x then 0 else Suc (index_where P xs))"

subsection \<open>Order on positions\<close>

text \<open>The lexicographic order on (line, column) pairs.\<close>

definition lex_le :: "int \<times> int \<Rightarrow> int \<times> int \<Rightarrow> bool" where
  "lex_le a b = (fst a < fst b \<or> (fst a = fst b \<and> snd a \<le> snd b))"

subsection \<open>What the external rules read\<close>

text \<open>
  How the two external rules behave at a cursor, in the terms of the tests that
  \<^verbatim>\<open>ArgumentList.parse\<close> makes on their results: the marker rule returns a cursor whose
  last symbol is \<^verbatim>\<open>Characters[s]\<close> or \<^verbatim>\<open>Always\<close>, the variable rule returns a
  cursor whose last symbol is a \<^verbatim>\<open>Variable\<close> or is not, the separator rule returns a
  cursor whose last symbol is \<^verbatim>\<open>Characters[',']\<close> or \<^verbatim>\<open>Always\<close>.
\<close>

definition reads_marker :: "'v parse_one_symbol \<Rightarrow> 'v parser \<Rightarrow> string \<Rightarrow> 'v parser \<Rightarrow> bool" where
  "reads_marker pos c s c' =
     (pos c marker_candidates = Inr c' \<and> last_symbol c' = Some (Characters s))"

definition reads_no_marker :: "'v parse_one_symbol \<Rightarrow> 'v parser \<Rightarrow> 'v parser \<Rightarrow> bool" where
  "reads_no_marker pos c c' =
     (pos c marker_candidates = Inr c' \<and> last_symbol c' = Some Always)"

definition reads_variable :: "'v Variable_parse \<Rightarrow> 'v parser \<Rightarrow> 'v \<Rightarrow> 'v parser \<Rightarrow> bool" where
  "reads_variable pvar c v c' =
     (pvar c = Inr (Some c') \<and> last_symbol c' = Some (Variable v))"

definition reads_no_variable :: "'v Variable_parse \<Rightarrow> 'v parser \<Rightarrow> bool" where
  "reads_no_variable pvar c =
     (case pvar c of Inr (Some c') \<Rightarrow> variable_of c' = None | _ \<Rightarrow> False)"

definition reads_comma :: "'v parse_one_symbol \<Rightarrow> 'v parser \<Rightarrow> 'v parser \<Rightarrow> bool" where
  "reads_comma pos c c' =
     (pos c separator_candidates = Inr c' \<and> last_symbol c' = Some (Characters '',''))"

definition reads_end :: "'v parse_one_symbol \<Rightarrow> 'v parser \<Rightarrow> 'v parser \<Rightarrow> bool" where
  "reads_end pos c c' =
     (pos c separator_candidates = Inr c' \<and> last_symbol c' = Some Always)"

subsection \<open>A sample grammar\<close>

text \<open>
  An instance of the two external rules, to run \<^verbatim>\<open>ArgumentList.parse\<close> on concrete
  text. \<^verbatim>\<open>Characters[s]\<close> matches the text \<open>s\<close> after any spaces,
  \<^verbatim>\<open>Always\<close> matches without consuming, \<^verbatim>\<open>parse_one_symbol\<close> is the ordered
  alternation of parser.py over them, and a variable is a run of letters after any spaces;
  where there is none the variable rule returns the cursor as it was. The theorems on
  \<^verbatim>\<open>ArgumentList.parse\<close> hold for any two rules; this instance only shows them at work
  on a text.
\<close>

definition ahead :: "'v parser \<Rightarrow> string" where
  "ahead c =
     (if 0 \<le> line c \<and> line c < int (length (lines c))
      then drop (nat (column c)) (lines c ! nat (line c)) else [])"

definition blanks :: "'v parser \<Rightarrow> nat" where
  "blanks c = length (takeWhile (\<lambda>x. x = CHR '' '') (ahead c))"

definition sample_Characters :: "string \<Rightarrow> 'v parser \<Rightarrow> ('v, marker_type) outcome" where
  "sample_Characters s c =
     (if take (length s) (drop (blanks c) (ahead c)) = s then
        Inr (Some (c\<lparr> column := column c + int (blanks c) + int (length s),
                       last_symbol := Some (Characters s) \<rparr>))
      else Inr None)"

definition sample_Always :: "'v parser \<Rightarrow> ('v, marker_type) outcome" where
  "sample_Always c = Inr (Some (c\<lparr> last_symbol := Some Always \<rparr>))"

fun sample_marker :: "marker_type \<Rightarrow> 'v parser \<Rightarrow> ('v, marker_type) outcome" where
  "sample_marker (TCharacters s) c = sample_Characters s c"
| "sample_marker TAlways c = sample_Always c"

definition sample_parse_one_symbol :: "'v parse_one_symbol" where
  "sample_parse_one_symbol c one_of = Parser_parse sample_marker c one_of"

definition is_letter :: "char \<Rightarrow> bool" where
  "is_letter ch =
     (let n = (of_char ch :: nat)
      in (97 \<le> n \<and> n \<le> 122) \<or> (65 \<le> n \<and> n \<le> 90) \<or> n = 95)"

definition sample_Variable_parse :: "string Variable_parse" where
  "sample_Variable_parse c =
     (let name = takeWhile is_letter (drop (blanks c) (ahead c))
      in if name = [] then Inr (Some c)
         else Inr (Some (c\<lparr> column := column c + int (blanks c) + int (length name),
                             last_symbol := Some (Variable name) \<rparr>)))"

subsection \<open>Sample cursors\<close>

text \<open>The inputs on which the theorems below are instantiated.\<close>

definition cursor_ab :: "unit parser" where
  "cursor_ab =
     \<lparr> lines = [''ab'', ''''], line = 0, column = 2, last_symbol = None, block_depth = 0 \<rparr>"

definition cursor_three_spaces :: "unit parser" where
  "cursor_three_spaces = Parser [''   x'']"

definition cursor_tab :: "unit parser" where
  "cursor_tab = Parser [[CHR '' '', CHR '' '', CHR 0x09, CHR ''x'']]"

definition cursor_eight_spaces :: "unit parser" where
  "cursor_eight_spaces = Parser [''        x'']"

definition cursor_four_spaces :: "unit parser" where
  "cursor_four_spaces = Parser [''    x'']"

definition cursor_extra_line :: "unit parser" where
  "cursor_extra_line =
     \<lparr> lines = [''ab''], line = 1, column = 0, last_symbol = None, block_depth = 0 \<rparr>"

definition cursor_past_end :: "unit parser" where
  "cursor_past_end =
     \<lparr> lines = [''ab''], line = 5, column = 0, last_symbol = None, block_depth = 1 \<rparr>"

definition cursor_extra_line_col5 :: "unit parser" where
  "cursor_extra_line_col5 =
     \<lparr> lines = [''ab''], line = 1, column = 5, last_symbol = None, block_depth = 0 \<rparr>"


text \<open>A cursor on a one-line text.\<close>

definition sample_cursor :: "string \<Rightarrow> int \<Rightarrow> string symbol option \<Rightarrow> string parser" where
  "sample_cursor t col seen =
     \<lparr> lines = [t], line = 0, column = col, last_symbol = seen, block_depth = 0 \<rparr>"

section \<open>Properties of the ordered alternation\<close>

lemmas tok_defs = EndFile_parse_def BlankLine_parse_def EndLine_parse_def BeginBlock_parse_def
  EndBlock_parse_def line_text_def py_getitem_def new_from_symbol_def last_line_def
  measure_block_depth_def indent_group1_def indent_group2_def py_strip_def py_isspace_def
  Parser_def Let_def

lemma parse_loop_skip:
  "\<forall>k \<in> set pre. is_no_match (parse_of k self) \<Longrightarrow> rest \<noteq> [] \<Longrightarrow>
   parse_loop parse_of self one_of (pre @ rest) = parse_loop parse_of self one_of rest"
proof (induction pre)
  case Nil
  then show ?case by simp
next
  case (Cons a pre)
  then have a: "is_no_match (parse_of a self)" by simp
  from Cons have ih:
    "parse_loop parse_of self one_of (pre @ rest) = parse_loop parse_of self one_of rest"
    by simp
  from a ih Cons.prems(2) show ?case
    by (cases "parse_of a self" rule: is_no_match.cases) auto
qed

lemma parse_loop_all_fail:
  "\<forall>k \<in> set cs. is_no_match (parse_of k self) \<Longrightarrow>
   parse_loop parse_of self one_of cs = Inl (NoMatchError self one_of)"
proof (induction cs)
  case Nil
  then show ?case by simp
next
  case (Cons a cs)
  then have a: "is_no_match (parse_of a self)" by simp
  from Cons have ih: "parse_loop parse_of self one_of cs = Inl (NoMatchError self one_of)"
    by simp
  from a ih show ?case
    by (cases "parse_of a self" rule: is_no_match.cases) auto
qed

lemma parse_loop_success:
  "parse_loop parse_of self one_of cs = Inr r \<Longrightarrow>
   \<exists>k < length cs. (\<forall>i < k. is_no_match (parse_of (cs ! i) self)) \<and>
      parse_of (cs ! k) self = Inr (Some r)"
proof (induction cs)
  case Nil
  then show ?case by simp
next
  case (Cons a cs)
  show ?case
  proof (cases "parse_of a self = Inr (Some r)")
    case True
    then show ?thesis by (intro exI[of _ 0]) simp
  next
    case False
    with Cons.prems have nm: "is_no_match (parse_of a self)"
      and rec: "parse_loop parse_of self one_of cs = Inr r"
      by (auto split: sum.splits error.splits option.splits if_splits)
    from Cons.IH[OF rec] obtain k where k: "k < length cs"
      "\<forall>i < k. is_no_match (parse_of (cs ! i) self)"
      "parse_of (cs ! k) self = Inr (Some r)" by blast
    have "\<forall>i < Suc k. is_no_match (parse_of ((a # cs) ! i) self)"
      using nm k(2) by (auto simp: less_Suc_eq_0_disj)
    with k show ?thesis by (intro exI[of _ "Suc k"]) simp
  qed
qed

lemma parse_loop_prefix:
  assumes "k < length cs"
    and "\<forall>i < k. is_no_match (parse_of (cs ! i) self)"
  shows "parse_loop parse_of self one_of (take (Suc k) cs @ later) =
         parse_loop parse_of self one_of (cs ! k # later)"
proof -
  have pre: "\<forall>c \<in> set (take k cs). is_no_match (parse_of c self)"
    using assms by (auto simp: in_set_conv_nth)
  have "take (Suc k) cs @ later = take k cs @ (cs ! k # later)"
    using assms(1) by (simp add: take_Suc_conv_app_nth)
  moreover have "parse_loop parse_of self one_of (take k cs @ (cs ! k # later)) =
      parse_loop parse_of self one_of (cs ! k # later)"
    using pre by (rule parse_loop_skip) simp
  ultimately show ?thesis by simp
qed

text \<open>
  Claim C1. \<^verbatim>\<open>Parser.parse\<close> tries the candidates in list order and returns the
  result of the first one that succeeds, skipping every candidate that returns
  \<^verbatim>\<open>None\<close> or raises \<^verbatim>\<open>NoMatchError\<close>: it returns \<open>r\<close> exactly when some candidate
  returns \<open>r\<close> and every candidate before it in the list did not match. So the result is
  never that of a later candidate when an earlier one succeeds.
\<close>

theorem parse_first_success:
  "Parser_parse parse_of self one_of = Inr r \<longleftrightarrow>
     (\<exists>k < length one_of.
        (\<forall>i < k. is_no_match (parse_of (one_of ! i) self)) \<and>
        parse_of (one_of ! k) self = Inr (Some r))"
proof
  assume "Parser_parse parse_of self one_of = Inr r"
  then show "\<exists>k < length one_of.
        (\<forall>i < k. is_no_match (parse_of (one_of ! i) self)) \<and>
        parse_of (one_of ! k) self = Inr (Some r)"
    unfolding Parser_parse_def by (rule parse_loop_success)
next
  assume "\<exists>k < length one_of.
        (\<forall>i < k. is_no_match (parse_of (one_of ! i) self)) \<and>
        parse_of (one_of ! k) self = Inr (Some r)"
  then obtain k where k: "k < length one_of"
    "\<forall>i < k. is_no_match (parse_of (one_of ! i) self)"
    "parse_of (one_of ! k) self = Inr (Some r)" by blast
  have "parse_loop parse_of self one_of (take (Suc k) one_of @ drop (Suc k) one_of) =
      parse_loop parse_of self one_of (one_of ! k # drop (Suc k) one_of)"
    using k(1,2) by (rule parse_loop_prefix)
  also have "\<dots> = Inr r" using k(3) by simp
  finally show "Parser_parse parse_of self one_of = Inr r"
    unfolding Parser_parse_def by simp
qed

theorem parse_first_success_witness:
  "Parser_parse Token_parse cursor_ab [TBlankLine, TEndLine, TEndFile] =
     Inr \<lparr> lines = [''ab'', ''''], line = 1, column = 0,
           last_symbol = Some (EndLine
             \<lparr> first_line = 0, next_line = 1, first_column = 2, next_column = 0 \<rparr>),
           block_depth = 0 \<rparr>"
proof -
  have "\<exists>k < length [TBlankLine, TEndLine, TEndFile].
      (\<forall>i < k. is_no_match (Token_parse ([TBlankLine, TEndLine, TEndFile] ! i) cursor_ab
           :: (unit, token_type) outcome)) \<and>
      Token_parse ([TBlankLine, TEndLine, TEndFile] ! k) cursor_ab =
        (Inr (Some \<lparr> lines = [''ab'', ''''], line = 1, column = 0,
           last_symbol = Some (EndLine
             \<lparr> first_line = 0, next_line = 1, first_column = 2, next_column = 0 \<rparr>),
           block_depth = 0 \<rparr>) :: (unit, token_type) outcome)"
    by (rule exI[of _ 1]) (simp add: cursor_ab_def tok_defs)
  then show ?thesis by (simp only: parse_first_success)
qed

text \<open>
  Claim C5. If every candidate fails, by returning \<^verbatim>\<open>None\<close> or raising
  \<^verbatim>\<open>NoMatchError\<close>, then \<^verbatim>\<open>Parser.parse\<close> raises a \<^verbatim>\<open>NoMatchError\<close> that carries
  the parser it was called on and the whole list of candidates, in order.
\<close>

theorem parse_all_fail:
  assumes "\<forall>k \<in> set one_of. is_no_match (parse_of k self)"
  shows "Parser_parse parse_of self one_of = Inl (NoMatchError self one_of)"
  unfolding Parser_parse_def using assms by (rule parse_loop_all_fail)

theorem parse_all_fail_witness:
  "Parser_parse Token_parse (Parser [''ab''] :: unit parser) [TBlankLine, TEndLine, TEndFile] =
     Inl (NoMatchError (Parser [''ab'']) [TBlankLine, TEndLine, TEndFile])"
proof -
  have "\<forall>k \<in> set [TBlankLine, TEndLine, TEndFile].
      is_no_match (Token_parse k (Parser [''ab''] :: unit parser) :: (unit, token_type) outcome)"
    by (simp add: tok_defs)
  then show ?thesis by (rule parse_all_fail)
qed

text \<open>
  Claim C6. If the candidates before some candidate did not match and that candidate
  raises an error other than \<^verbatim>\<open>NoMatchError\<close> (an \<^verbatim>\<open>IndentationError\<close>, the
  error of a violated constraint of the argument list), then \<^verbatim>\<open>Parser.parse\<close> raises that very error,
  and it does so whatever candidates come later in the list: none of them is tried.
\<close>

theorem parse_hard_error:
  assumes "k < length one_of"
    and "\<forall>i < k. is_no_match (parse_of (one_of ! i) self)"
    and "parse_of (one_of ! k) self = Inl exc"
    and "\<not> is_NoMatchError exc"
  shows "Parser_parse parse_of self one_of = Inl exc \<and>
         (\<forall>later. Parser_parse parse_of self (take (Suc k) one_of @ later) = Inl exc)"
proof -
  have any: "Parser_parse parse_of self (take (Suc k) one_of @ later) = Inl exc" for later
  proof -
    have "take (Suc k) (take (Suc k) one_of @ later) = take (Suc k) one_of"
      using assms(1) by simp
    then have "parse_loop parse_of self (take (Suc k) one_of @ later)
          (take (Suc k) one_of @ later) =
        parse_loop parse_of self (take (Suc k) one_of @ later) (one_of ! k # later)"
      using parse_loop_prefix[where parse_of = parse_of and self = self and cs = one_of
          and k = k and one_of = "take (Suc k) one_of @ later" and later = later]
        assms(1,2) by simp
    also have "\<dots> = Inl exc"
      using assms(3,4) by (cases exc) simp_all
    finally show ?thesis unfolding Parser_parse_def .
  qed
  from any[of "drop (Suc k) one_of"] have "Parser_parse parse_of self one_of = Inl exc"
    by simp
  with any show ?thesis by simp
qed

theorem parse_hard_error_witness:
  "Parser_parse Token_parse cursor_three_spaces [TBlankLine, TBeginBlock, TEndLine] =
     Inl (IndentationError msg_extra_spaces 0 0)
   \<and> Parser_parse Token_parse cursor_three_spaces [TBlankLine, TBeginBlock, TEndFile] =
     Inl (IndentationError msg_extra_spaces 0 0)"
proof -
  have 1: "(1::nat) < length [TBlankLine, TBeginBlock, TEndLine]" by simp
  have 2: "\<forall>i < 1. is_no_match
      (Token_parse ([TBlankLine, TBeginBlock, TEndLine] ! i) cursor_three_spaces
        :: (unit, token_type) outcome)"
    by (simp add: cursor_three_spaces_def tok_defs)
  have 3: "Token_parse ([TBlankLine, TBeginBlock, TEndLine] ! 1) cursor_three_spaces =
      (Inl (IndentationError msg_extra_spaces 0 0) :: (unit, token_type) outcome)"
    by (simp add: cursor_three_spaces_def tok_defs)
  have 4: "\<not> is_NoMatchError
      (IndentationError msg_extra_spaces 0 0 :: (unit parser, token_type) error)"
    by simp
  note t = parse_hard_error[where parse_of = Token_parse and self = cursor_three_spaces
      and one_of = "[TBlankLine, TBeginBlock, TEndLine]" and k = 1
      and exc = "IndentationError msg_extra_spaces 0 0", OF 1 2 3 4]
  from t[THEN conjunct1] t[THEN conjunct2, rule_format, of "[TEndFile]"]
  show ?thesis by simp
qed

section \<open>Properties of the indentation measure\<close>

lemma space_isspace: "py_isspace (CHR '' '')"
  by (simp add: py_isspace_def)

lemma index_where_takeWhile: "index_where P xs = length (takeWhile (\<lambda>x. \<not> P x) xs)"
  by (induction xs) auto

lemma takeWhile_takeWhile_imp:
  "(\<And>x. P x \<Longrightarrow> Q x) \<Longrightarrow> takeWhile P (takeWhile Q xs) = takeWhile P xs"
  by (induction xs) auto

lemma indent_groups: "indent_group1 t @ indent_group2 t = leading_whitespace t"
proof -
  let ?sp = "\<lambda>c. c = CHR '' ''"
  have d: "drop (length (takeWhile ?sp t)) t = dropWhile ?sp t"
    by (simp add: dropWhile_eq_drop)
  have "takeWhile py_isspace (takeWhile ?sp t @ dropWhile ?sp t) =
      takeWhile ?sp t @ takeWhile py_isspace (dropWhile ?sp t)"
    by (rule takeWhile_append2) (auto dest: set_takeWhileD simp: space_isspace)
  then show ?thesis
    by (simp add: indent_group1_def indent_group2_def leading_whitespace_def d)
qed

lemma indent_group2_nonempty:
  "indent_group2 t \<noteq> [] \<longleftrightarrow> (\<exists>c \<in> set (leading_whitespace t). c \<noteq> CHR '' '')"
proof
  assume ne: "indent_group2 t \<noteq> []"
  have d: "indent_group2 t = takeWhile py_isspace (dropWhile (\<lambda>c. c = CHR '' '') t)"
    by (simp add: indent_group2_def indent_group1_def dropWhile_eq_drop)
  obtain x xs where x: "dropWhile (\<lambda>c. c = CHR '' '') t = x # xs"
    using ne d by (cases "dropWhile (\<lambda>c. c = CHR '' '') t") simp_all
  have "x \<noteq> CHR '' ''"
    using hd_dropWhile[of "\<lambda>c. c = CHR '' ''" t] x by simp
  moreover have "x \<in> set (indent_group2 t)"
    using ne d x by (simp split: if_splits)
  ultimately show "\<exists>c \<in> set (leading_whitespace t). c \<noteq> CHR '' ''"
    using indent_groups[of t, symmetric] by auto
next
  assume "\<exists>c \<in> set (leading_whitespace t). c \<noteq> CHR '' ''"
  then obtain c where c: "c \<in> set (indent_group1 t @ indent_group2 t)" "c \<noteq> CHR '' ''"
    by (auto simp: indent_groups)
  have "c \<notin> set (indent_group1 t)" using c(2)
    by (auto simp: indent_group1_def dest: set_takeWhileD)
  with c(1) show "indent_group2 t \<noteq> []" by auto
qed

lemma first_other_index:
  "index_where (\<lambda>c. c \<noteq> CHR '' '') (leading_whitespace t) = length (indent_group1 t)"
  using takeWhile_takeWhile_imp[of "\<lambda>c. c = CHR '' ''" py_isspace t]
  by (simp add: index_where_takeWhile leading_whitespace_def indent_group1_def space_isspace)

lemma largest_multiple_below:
  fixes n :: nat
  assumes "n mod 4 \<noteq> 0"
  shows "Max {m. m < n \<and> 4 dvd m} = 4 * (n div 4)"
proof (rule Max_eqI)
  show "finite {m. m < n \<and> 4 dvd m}" by simp
  show "4 * (n div 4) \<in> {m. m < n \<and> 4 dvd m}" using assms by simp presburger
  fix y assume "y \<in> {m. m < n \<and> 4 dvd m}"
  then have "y < n" "4 dvd y" by simp_all
  then show "y \<le> 4 * (n div 4)" by presburger
qed

lemma line_text_defined:
  "(\<exists>t. (line_text p :: ('e, 'k) error + string) = Inr t) \<longleftrightarrow>
     - int (length (lines p)) \<le> line p"
  by (auto simp: line_text_def py_getitem_def)

lemma measure_block_depth_IndexError:
  assumes "line p < - int (length (lines p))"
  shows "(measure_block_depth p :: ('e, 'k) error + int) = Inl IndexError"
  using assms by (simp add: measure_block_depth_def line_text_def py_getitem_def)

lemma measure_block_depth_eq:
  assumes "(line_text p :: ('e, 'k) error + string) = Inr t"
  shows "(measure_block_depth p :: ('e, 'k) error + int) =
     (if \<exists>c \<in> set (leading_whitespace t). c \<noteq> CHR '' '' then
        Inl (IndentationError msg_other_whitespace (line p)
              (int (index_where (\<lambda>c. c \<noteq> CHR '' '') (leading_whitespace t))))
      else if leading_spaces t mod 4 \<noteq> 0 then
        Inl (IndentationError msg_extra_spaces (line p) (4 * int (leading_spaces t div 4)))
      else if block_depth p + 1 < int (leading_spaces t div 4) then
        Inl (IndentationError msg_over_indented (line p) (4 * (block_depth p + 1)))
      else Inr (int (leading_spaces t div 4)))"
proof (cases "indent_group2 t = []")
  case False
  then show ?thesis
    using assms indent_group2_nonempty[of t] first_other_index[of t]
    by (simp add: measure_block_depth_def)
next
  case True
  have n: "length (indent_group1 t) = leading_spaces t"
    by (simp add: indent_group1_def leading_spaces_def)
  have m: "int (leading_spaces t) mod 4 = int (leading_spaces t mod 4)"
    and d: "int (leading_spaces t) div 4 = int (leading_spaces t div 4)"
    by (simp_all add: zmod_int zdiv_int)
  have "\<not> (\<exists>c \<in> set (leading_whitespace t). c \<noteq> CHR '' '')"
    using True indent_group2_nonempty[of t] by simp
  then show ?thesis
    using assms True
    by (simp add: measure_block_depth_def n m d Let_def mult.commute)
qed

text \<open>
  Claim C4. On a parser whose current line has text \<open>t\<close> (every parser whose line index
  is not below \<^verbatim>\<open>-len(lines)\<close>, where indexing raises), \<^verbatim>\<open>_measure_block_depth\<close>
  raises \<^verbatim>\<open>IndentationError\<close> exactly when (a) the leading whitespace of \<open>t\<close> holds a
  character other than the space: message "other whitespace found", column the index of
  the first such character; or (b) the number of leading spaces is not a multiple of four:
  message "extra spaces found", column the largest multiple of four below that number; or
  (c) the number of leading spaces divided by four exceeds the current block depth by more
  than one: message "block over-indented", column four times the current depth plus one.
  The line of the error is the parser's. Otherwise it returns the number of leading spaces
  divided by four.
\<close>

theorem measure_block_depth_spec:
  assumes "(line_text p :: ('e, 'k) error + string) = Inr t"
  shows "(measure_block_depth p :: ('e, 'k) error + int) =
     (if \<exists>c \<in> set (leading_whitespace t). c \<noteq> CHR '' '' then
        Inl (IndentationError msg_other_whitespace (line p)
              (int (index_where (\<lambda>c. c \<noteq> CHR '' '') (leading_whitespace t))))
      else if leading_spaces t mod 4 \<noteq> 0 then
        Inl (IndentationError msg_extra_spaces (line p) (4 * int (leading_spaces t div 4)))
      else if block_depth p + 1 < int (leading_spaces t div 4) then
        Inl (IndentationError msg_over_indented (line p) (4 * (block_depth p + 1)))
      else Inr (int (leading_spaces t div 4)))
    \<and> (leading_spaces t mod 4 \<noteq> 0 \<longrightarrow>
          4 * (leading_spaces t div 4) = Max {m. m < leading_spaces t \<and> 4 dvd m})
    \<and> ((\<exists>msg l c. (measure_block_depth p :: ('e, 'k) error + int) =
             Inl (IndentationError msg l c)) \<longleftrightarrow>
          (\<exists>c \<in> set (leading_whitespace t). c \<noteq> CHR '' '') \<or>
          leading_spaces t mod 4 \<noteq> 0 \<or>
          block_depth p + 1 < int (leading_spaces t div 4))"
  using measure_block_depth_eq[OF assms] largest_multiple_below[of "leading_spaces t"]
  by auto

theorem measure_block_depth_spec_witness:
  "(measure_block_depth cursor_tab :: (unit, unit) error + int) =
      Inl (IndentationError msg_other_whitespace 0 2)
   \<and> (measure_block_depth cursor_three_spaces :: (unit, unit) error + int) =
      Inl (IndentationError msg_extra_spaces 0 0)
   \<and> (measure_block_depth cursor_eight_spaces :: (unit, unit) error + int) =
      Inl (IndentationError msg_over_indented 0 4)
   \<and> (measure_block_depth cursor_four_spaces :: (unit, unit) error + int) = Inr 1"
proof -
  have t1: "(line_text cursor_tab :: (unit, unit) error + string) =
      Inr [CHR '' '', CHR '' '', CHR 0x09, CHR ''x'']"
    by (simp add: cursor_tab_def Parser_def line_text_def py_getitem_def)
  have t2: "(line_text cursor_three_spaces :: (unit, unit) error + string) = Inr ''   x''"
    by (simp add: cursor_three_spaces_def Parser_def line_text_def py_getitem_def)
  have t3: "(line_text cursor_eight_spaces :: (unit, unit) error + string) = Inr ''        x''"
    by (simp add: cursor_eight_spaces_def Parser_def line_text_def py_getitem_def)
  have t4: "(line_text cursor_four_spaces :: (unit, unit) error + string) = Inr ''    x''"
    by (simp add: cursor_four_spaces_def Parser_def line_text_def py_getitem_def)
  have "(measure_block_depth cursor_tab :: (unit, unit) error + int) =
      Inl (IndentationError msg_other_whitespace 0 2)"
    using measure_block_depth_spec[OF t1]
    by (simp add: leading_whitespace_def leading_spaces_def py_isspace_def cursor_tab_def Parser_def)
  moreover have "(measure_block_depth cursor_three_spaces :: (unit, unit) error + int) =
      Inl (IndentationError msg_extra_spaces 0 0)"
    using measure_block_depth_spec[OF t2]
    by (simp add: leading_whitespace_def leading_spaces_def py_isspace_def
          cursor_three_spaces_def Parser_def)
  moreover have "(measure_block_depth cursor_eight_spaces :: (unit, unit) error + int) =
      Inl (IndentationError msg_over_indented 0 4)"
    using measure_block_depth_spec[OF t3]
    by (simp add: leading_whitespace_def leading_spaces_def py_isspace_def
          cursor_eight_spaces_def Parser_def)
  moreover have "(measure_block_depth cursor_four_spaces :: (unit, unit) error + int) = Inr 1"
    using measure_block_depth_spec[OF t4]
    by (simp add: leading_whitespace_def leading_spaces_def py_isspace_def
          cursor_four_spaces_def Parser_def)
  ultimately show ?thesis by simp
qed

section \<open>Properties of the token rules\<close>

lemma line_text_extra_line:
  "line p = last_line p + 1 \<Longrightarrow> line_text p = Inr []"
  by (auto simp: line_text_def last_line_def)

lemma new_from_symbol_fields:
  "lines (new_from_symbol p s) = lines p"
  "last_symbol (new_from_symbol p s) = Some s"
  "column (new_from_symbol p s) =
     (case token_span s of Some sp \<Rightarrow> next_column sp | None \<Rightarrow> column p)"
  "line (new_from_symbol p s) =
     min (case token_span s of Some sp \<Rightarrow> next_line sp | None \<Rightarrow> line p) (last_line p + 1)"
  by (simp_all add: new_from_symbol_def)

lemma BeginBlock_success:
  assumes "(BeginBlock_parse p :: ('v, 'k) outcome) = Inr (Some q)"
  shows "column p = 0" and "block_depth q = block_depth p + 1"
    and "lines q = lines p" and "column q = column p"
    and "line q = min (line p) (last_line p + 1)"
    and "\<exists>m. (measure_block_depth p :: ('v parser, 'k) error + int) = Inr m \<and> block_depth p < m"
  using assms
  by (auto simp: BeginBlock_parse_def new_from_symbol_def split: if_splits sum.splits)

lemma EndBlock_success:
  assumes "(EndBlock_parse p :: ('v, 'k) outcome) = Inr (Some q)"
  shows "column p = 0" and "block_depth q = block_depth p - 1"
    and "lines q = lines p" and "column q = column p"
    and "line q = min (line p) (last_line p + 1)"
    and "\<exists>m. (measure_block_depth p :: ('v parser, 'k) error + int) = Inr m \<and> m < block_depth p"
  using assms
  by (auto simp: EndBlock_parse_def new_from_symbol_def split: if_splits sum.splits)



lemma Token_success_position:
  assumes "(Token_parse k p :: ('v, 'k) outcome) = Inr (Some q)"
  shows "(k = TEndFile \<or> k = TBeginBlock \<or> k = TEndBlock) \<and>
           line q = min (line p) (last_line p + 1) \<and> column q = column p
         \<or> k = TBlankLine \<and>
           line q = min (line p + 1) (last_line p + 1) \<and> column q = 0 \<and> column p = 0
         \<or> k = TEndLine \<and>
           line q = min (line p + 1) (last_line p + 1) \<and> column q = 0 \<and> 0 \<le> column p"
proof (cases k)
  case TEndFile
  with assms show ?thesis
    by (auto simp: EndFile_parse_def new_from_symbol_def split: if_splits sum.splits)
next
  case TBlankLine
  with assms show ?thesis
    by (auto simp: BlankLine_parse_def new_from_symbol_def split: if_splits sum.splits)
next
  case TEndLine
  with assms show ?thesis
    by (auto simp: EndLine_parse_def new_from_symbol_def split: if_splits sum.splits)
next
  case TBeginBlock
  with assms have b: "(BeginBlock_parse p :: ('v, 'k) outcome) = Inr (Some q)" by simp
  show ?thesis
    using TBeginBlock BeginBlock_success(4)[OF b] BeginBlock_success(5)[OF b] by simp
next
  case TEndBlock
  with assms have e: "(EndBlock_parse p :: ('v, 'k) outcome) = Inr (Some q)" by simp
  show ?thesis
    using TEndBlock EndBlock_success(4)[OF e] EndBlock_success(5)[OF e] by simp
qed

text \<open>
  Claim C10. On a parser whose line index is \<^verbatim>\<open>last_line + 1\<close>, the largest index
  that \<^verbatim>\<open>new_from_symbol\<close> allows, and whose column is 0, the line reads as the empty
  string and \<^verbatim>\<open>EndLine.parse\<close> succeeds. The parser it returns differs from the input
  in \<^verbatim>\<open>last_symbol\<close> only: the line index, the column, the block depth and the lines are
  the same, so the hypotheses hold of it again and \<^verbatim>\<open>EndLine\<close> matches there as often as
  it is tried, without progress.
\<close>

theorem EndLine_at_end:
  assumes "line p = last_line p + 1" and "column p = 0"
  shows "(line_text p :: ('v parser, 'k) error + string) = Inr [] \<and>
    (EndLine_parse p :: ('v, 'k) outcome) =
      Inr (Some (p\<lparr> last_symbol := Some (EndLine
        \<lparr> first_line = line p, next_line = line p + 1, first_column = 0, next_column = 0 \<rparr>) \<rparr>))"
  using assms
  by (simp add: line_text_extra_line EndLine_parse_def new_from_symbol_def)

theorem EndLine_at_end_witness:
  "(EndLine_parse cursor_extra_line :: (unit, unit) outcome) =
     Inr (Some \<lparr> lines = [''ab''], line = 1, column = 0,
       last_symbol = Some (EndLine
         \<lparr> first_line = 1, next_line = 2, first_column = 0, next_column = 0 \<rparr>),
       block_depth = 0 \<rparr>)"
proof -
  have 1: "line cursor_extra_line = last_line cursor_extra_line + 1"
    by (simp add: cursor_extra_line_def last_line_def)
  have 2: "column cursor_extra_line = 0"
    by (simp add: cursor_extra_line_def)
  from EndLine_at_end[OF 1 2, where ?'k = unit] show ?thesis
    by (simp add: cursor_extra_line_def)
qed




text \<open>
  Claim C9, as stated, for every cursor on which a token rule succeeds: it fails on the
  extra line \<^verbatim>\<open>last_line + 1\<close> at a column above 0, where \<^verbatim>\<open>EndLine\<close> succeeds
  and sets the column to 0 while the line index stays, and on a cursor whose line index is
  beyond \<^verbatim>\<open>last_line + 1\<close>, where a successful match brings the line index back.
\<close>

theorem token_monotone_counterexample:
  "(Token_parse TEndLine cursor_extra_line_col5 :: (unit, unit) outcome) =
     Inr (Some \<lparr> lines = [''ab''], line = 1, column = 0,
       last_symbol = Some (EndLine
         \<lparr> first_line = 1, next_line = 2, first_column = 5, next_column = 0 \<rparr>),
       block_depth = 0 \<rparr>)
   \<and> line cursor_extra_line_col5 = 1 \<and> column cursor_extra_line_col5 = 5
   \<and> \<not> lex_le (1, 5) (1, 0)
   \<and> (Token_parse TEndFile cursor_past_end :: (unit, unit) outcome) =
     Inr (Some \<lparr> lines = [''ab''], line = 1, column = 0,
       last_symbol = Some (EndFile
         \<lparr> first_line = 5, next_line = 5, first_column = 0, next_column = 0 \<rparr>),
       block_depth = 1 \<rparr>)
   \<and> line cursor_past_end = 5 \<and> column cursor_past_end = 0
   \<and> \<not> lex_le (5, 0) (1, 0)"
  by (simp add: cursor_extra_line_col5_def cursor_past_end_def tok_defs lex_le_def)

text \<open>
  Claim C9, amended. For each of the five token rules and every cursor on which it
  succeeds, whose line index is at most \<^verbatim>\<open>last_line + 1\<close> and, for \<^verbatim>\<open>EndLine\<close> on
  the line \<^verbatim>\<open>last_line + 1\<close>, whose column is 0: the (line, column) pair of the
  resulting cursor is greater than or equal to the input's in the lexicographic order.
\<close>

theorem token_monotone:
  assumes "(Token_parse k p :: ('v, 'k) outcome) = Inr (Some q)"
    and "line p \<le> last_line p + 1"
    and "k = TEndLine \<and> line p = last_line p + 1 \<longrightarrow> column p = 0"
  shows "lex_le (line p, column p) (line q, column q)"
  using Token_success_position[OF assms(1)] assms(2,3)
  by (auto simp: lex_le_def min_def split: if_splits)

theorem token_monotone_witness:
  "(Token_parse TEndLine cursor_ab :: (unit, unit) outcome) =
     Inr (Some \<lparr> lines = [''ab'', ''''], line = 1, column = 0,
           last_symbol = Some (EndLine
             \<lparr> first_line = 0, next_line = 1, first_column = 2, next_column = 0 \<rparr>),
           block_depth = 0 \<rparr>)
   \<and> lex_le (0, 2) (1, 0)"
proof -
  let ?q = "\<lparr> lines = [''ab'', ''''], line = 1, column = 0,
           last_symbol = Some (EndLine
             \<lparr> first_line = 0, next_line = 1, first_column = 2, next_column = 0 \<rparr>),
           block_depth = 0 \<rparr> :: unit parser"
  have 1: "(Token_parse TEndLine cursor_ab :: (unit, unit) outcome) = Inr (Some ?q)"
    by (simp add: cursor_ab_def tok_defs)
  have 2: "line cursor_ab \<le> last_line cursor_ab + 1"
    by (simp add: cursor_ab_def last_line_def)
  have 3: "TEndLine = TEndLine \<and> line cursor_ab = last_line cursor_ab + 1 \<longrightarrow>
      column cursor_ab = 0"
    by (simp add: cursor_ab_def last_line_def)
  from token_monotone[OF 1 2 3] have "lex_le (0, 2) (1, 0)"
    by (simp add: cursor_ab_def)
  with 1 show ?thesis by simp
qed

text \<open>The two conditions on the cursor are needed: without them the position moves back.\<close>

lemma token_monotone_sharp:
  assumes "(Token_parse k p :: ('v, 'k) outcome) = Inr (Some q)"
    and "lex_le (line p, column p) (line q, column q)"
  shows "line p \<le> last_line p + 1 \<and>
         (k = TEndLine \<and> line p = last_line p + 1 \<longrightarrow> column p = 0)"
  using Token_success_position[OF assms(1)] assms(2)
  by (auto simp: lex_le_def min_def split: if_splits)

section \<open>Properties of the argument list\<close>

lemmas reads_defs = reads_marker_def reads_no_marker_def reads_variable_def
  reads_no_variable_def reads_comma_def reads_end_def

lemma dispatch_slash:
  assumes "is_Characters ''/'' cur"
  shows "dispatch l cur new_cursor =
    (if saw_end_position_only_marker l then
       Inl TypeError
     else if saw_begin_keyword_only_marker l then
       Inl TypeError
     else Inr (Some (l\<lparr> cursor := cur, arguments := map position_only (arguments l),
            saw_end_position_only_marker := True \<rparr>)))"
  using assms by (simp add: dispatch_def is_Characters_def ParseError_call_def)

lemma dispatch_not_slash:
  assumes "\<not> is_Characters ''/'' cur" and "dispatch l cur new_cursor = Inr (Some l')"
  shows "\<exists>new. arguments l' = arguments l @ new"
  using assms
  by (auto simp: dispatch_def split: if_splits option.splits)

lemma loop_body_arguments:
  assumes "loop_body pos pvar l = Inr (again, l')"
  shows "(\<exists>cur. pos (cursor l) marker_candidates = Inr cur \<and> is_Characters ''/'' cur \<and>
            arguments l' = map position_only (arguments l))
         \<or> (\<exists>new. arguments l' = arguments l @ new)"
proof -
  from assms obtain cur nc where cur: "pos (cursor l) marker_candidates = Inr cur"
    and nc: "pvar cur = Inr nc"
    by (auto simp: loop_body_def split: sum.splits)
  show ?thesis
  proof (cases "dispatch l cur nc")
    case (Inl e)
    with assms cur nc show ?thesis by (simp add: loop_body_def)
  next
    case (Inr r)
    show ?thesis
    proof (cases r)
      case None
      with Inr assms cur nc show ?thesis by (auto simp: loop_body_def)
    next
      case (Some l1)
      with Inr assms cur nc have a: "arguments l' = arguments l1"
        by (auto simp: loop_body_def split: sum.splits)
      show ?thesis
      proof (cases "is_Characters ''/'' cur")
        case True
        with Inr Some have "arguments l1 = map position_only (arguments l)"
          by (auto simp: dispatch_slash split: if_splits)
        with a cur True show ?thesis by auto
      next
        case False
        from dispatch_not_slash[OF False] Inr Some a show ?thesis by auto
      qed
    qed
  qed
qed

lemma while_loop_again:
  "loop_body pos pvar l = Inr (True, l') \<Longrightarrow> while_loop pos pvar l = while_loop pos pvar l'"
  by (subst while_loop.simps) simp

lemma while_loop_break:
  "loop_body pos pvar l = Inr (False, l') \<Longrightarrow> while_loop pos pvar l = Some (Inr l')"
  by (subst while_loop.simps) simp

lemma while_loop_raise:
  "loop_body pos pvar l = Inl exc \<Longrightarrow> while_loop pos pvar l = Some (Inl exc)"
  by (subst while_loop.simps) simp


lemma loop_body_slash:
  assumes "reads_marker pos (cursor l) ''/'' cur" and "pvar cur = Inr new_cursor"
  shows "loop_body pos pvar l =
    (if saw_end_position_only_marker l then
       Inl TypeError
     else if saw_begin_keyword_only_marker l then
       Inl TypeError
     else (case pos cur separator_candidates of
             Inl exc \<Rightarrow> Inl exc
           | Inr cur' \<Rightarrow>
               Inr (last_symbol cur' \<noteq> Some Always,
                    l\<lparr> cursor := cur', arguments := map position_only (arguments l),
                       saw_end_position_only_marker := True \<rparr>)))"
proof -
  from assms(1) have m: "pos (cursor l) marker_candidates = Inr cur"
    and c: "is_Characters ''/'' cur"
    by (simp_all add: reads_marker_def is_Characters_def)
  show ?thesis
    by (simp add: loop_body_def m assms(2) dispatch_slash[OF c] split: sum.splits)
qed

lemma loop_body_plain:
  assumes "pos (cursor l) marker_candidates = Inr cur"
    and "\<not> is_Characters ''*'' cur" and "\<not> is_Characters ''**'' cur"
    and "\<not> is_Characters ''/'' cur"
    and "reads_variable pvar cur v nc"
  shows "loop_body pos pvar l =
    (case pos nc separator_candidates of
       Inl exc \<Rightarrow> Inl exc
     | Inr cur' \<Rightarrow>
         Inr (last_symbol cur' \<noteq> Some Always,
              l\<lparr> cursor := cur',
                 arguments := arguments l @
                   [\<lparr> variable = v, is_positional = (\<not> saw_begin_keyword_only_marker l),
                      is_keyword = True, is_extra = False \<rparr>] \<rparr>))"
  using assms
  by (simp add: loop_body_def dispatch_def reads_variable_def split: sum.splits)

lemma loop_body_star:
  assumes "reads_marker pos (cursor l) ''*'' cur" and "pvar cur = Inr (Some nc)"
  shows "loop_body pos pvar l =
    (case variable_of nc of
       Some v \<Rightarrow>
         if saw_extra_positionals l then
           Inl TypeError
         else if saw_begin_keyword_only_marker l then
           Inl TypeError
         else (case pos nc separator_candidates of
                 Inl exc \<Rightarrow> Inl exc
               | Inr cur' \<Rightarrow>
                   Inr (last_symbol cur' \<noteq> Some Always,
                        l\<lparr> cursor := cur',
                           arguments := arguments l @
                             [\<lparr> variable = v, is_positional = True, is_keyword = False,
                                is_extra = True \<rparr>],
                           saw_extra_positionals := True,
                           saw_begin_keyword_only_marker := True \<rparr>))
     | None \<Rightarrow>
         if saw_begin_keyword_only_marker l then
           Inl TypeError
         else (case pos cur separator_candidates of
                 Inl exc \<Rightarrow> Inl exc
               | Inr cur' \<Rightarrow>
                   Inr (last_symbol cur' \<noteq> Some Always,
                        l\<lparr> cursor := cur', saw_begin_keyword_only_marker := True \<rparr>)))"
proof -
  from assms(1) have m: "pos (cursor l) marker_candidates = Inr cur"
    and c: "is_Characters ''*'' cur"
    by (simp_all add: reads_marker_def is_Characters_def)
  show ?thesis
    by (simp add: loop_body_def dispatch_def ParseError_call_def m c assms(2)
        split: sum.splits option.splits)
qed

lemma loop_body_double_star:
  assumes "reads_marker pos (cursor l) ''**'' cur" and "pvar cur = Inr (Some nc)"
  shows "loop_body pos pvar l =
    (case variable_of nc of
       None \<Rightarrow> Inl TypeError
     | Some v \<Rightarrow>
         if saw_extra_keywords l then
           Inl TypeError
         else (case pos nc separator_candidates of
                 Inl exc \<Rightarrow> Inl exc
               | Inr cur' \<Rightarrow>
                   Inr (last_symbol cur' \<noteq> Some Always,
                        l\<lparr> cursor := cur',
                           arguments := arguments l @
                             [\<lparr> variable = v, is_positional = False, is_keyword = True,
                                is_extra = True \<rparr>],
                           saw_extra_keywords := True \<rparr>)))"
proof -
  from assms(1) have m: "pos (cursor l) marker_candidates = Inr cur"
    and c: "is_Characters ''**'' cur" and n: "\<not> is_Characters ''*'' cur"
    by (simp_all add: reads_marker_def is_Characters_def)
  show ?thesis
    by (simp add: loop_body_def dispatch_def ParseError_call_def m c n assms(2)
        split: sum.splits option.splits)
qed

lemma loop_body_None:
  assumes "pos (cursor l) marker_candidates = Inr cur"
    and "is_Characters ''*'' cur \<or> is_Characters ''**'' cur"
    and "pvar cur = Inr None"
  shows "loop_body pos pvar l = Inl AttributeError"
  using assms by (auto simp: loop_body_def dispatch_def)

lemma loop_body_plain_Always:
  assumes "reads_no_marker pos (cursor l) cur" and "reads_variable pvar cur v nc"
    and "pos nc separator_candidates = Inr cur'"
  shows "loop_body pos pvar l =
         Inr (last_symbol cur' \<noteq> Some Always,
              l\<lparr> cursor := cur',
                 arguments := arguments l @
                   [\<lparr> variable = v, is_positional = (\<not> saw_begin_keyword_only_marker l),
                      is_keyword = True, is_extra = False \<rparr>] \<rparr>)"
proof -
  from assms(1) have m: "pos (cursor l) marker_candidates = Inr cur"
    and a: "last_symbol cur = Some Always"
    by (simp_all add: reads_no_marker_def)
  from a have n: "\<not> is_Characters ''*'' cur" "\<not> is_Characters ''**'' cur"
    "\<not> is_Characters ''/'' cur"
    by (simp_all add: is_Characters_def)
  show ?thesis
    using loop_body_plain[of pos l cur pvar v nc] m n assms(2,3) by simp
qed

lemma example_slash:
  assumes 1: "reads_no_marker pos c0 c1" and 2: "reads_variable pvar c1 a c2"
    and 3: "reads_comma pos c2 c3"
    and 4: "reads_marker pos c3 ''/'' c4" and 5: "pvar c4 = Inr anything"
    and 6: "reads_comma pos c4 c5"
    and 7: "reads_no_marker pos c5 c6" and 8: "reads_variable pvar c6 b c7"
    and 9: "reads_end pos c7 c8"
  shows "ArgumentList_parse pos pvar c0 =
     Some (Inr (new_from_symbol c8 (ArgumentList
       [\<lparr> variable = a, is_positional = True, is_keyword = False, is_extra = False \<rparr>,
        \<lparr> variable = b, is_positional = True, is_keyword = True, is_extra = False \<rparr>])))"
proof -
  let ?l1 = "(initial_locals c0)\<lparr> cursor := c3,
      arguments := [\<lparr> variable = a, is_positional = True, is_keyword = True, is_extra = False \<rparr>] \<rparr>"
  let ?l2 = "?l1\<lparr> cursor := c5,
      arguments := [\<lparr> variable = a, is_positional = True, is_keyword = False, is_extra = False \<rparr>],
      saw_end_position_only_marker := True \<rparr>"
  let ?l3 = "?l2\<lparr> cursor := c8,
      arguments := [\<lparr> variable = a, is_positional = True, is_keyword = False, is_extra = False \<rparr>,
        \<lparr> variable = b, is_positional = True, is_keyword = True, is_extra = False \<rparr>] \<rparr>"
  have s1: "loop_body pos pvar (initial_locals c0) = Inr (True, ?l1)"
    using loop_body_plain_Always[of pos "initial_locals c0" c1 pvar a c2 c3] 1 2 3
    by (simp add: initial_locals_def reads_comma_def)
  have s2: "loop_body pos pvar ?l1 = Inr (True, ?l2)"
    using loop_body_slash[of pos ?l1 c4 pvar anything] 4 5 6
    by (simp add: initial_locals_def reads_comma_def position_only_def)
  have s3: "loop_body pos pvar ?l2 = Inr (False, ?l3)"
    using loop_body_plain_Always[of pos ?l2 c6 pvar b c7 c8] 7 8 9
    by (simp add: initial_locals_def reads_end_def)
  have "while_loop pos pvar (initial_locals c0) = Some (Inr ?l3)"
    using while_loop_again[OF s1] while_loop_again[OF s2] while_loop_break[OF s3] by simp
  then show ?thesis
    by (simp add: ArgumentList_parse_def initial_locals_def)
qed

lemma loop_body_result:
  assumes "loop_body pos pvar s = Inr (again, s')"
  shows "\<exists>cur nc. pos (cursor s) marker_candidates = Inr cur \<and> pvar cur = Inr nc \<and>
           (dispatch s cur nc = Inr None \<and> s' = s\<lparr> cursor := cur \<rparr>
            \<or> (\<exists>s1 cur'. dispatch s cur nc = Inr (Some s1) \<and> s' = s1\<lparr> cursor := cur' \<rparr>))"
  using assms
  by (auto simp: loop_body_def split: sum.splits option.splits)

lemma dispatch_None_flags:
  assumes "dispatch s cur nc = Inr None"
  shows "\<not> is_Characters ''*'' cur" and "\<not> is_Characters ''**'' cur"
    and "\<not> is_Characters ''/'' cur"
  using assms
  by (auto simp: dispatch_def split: if_splits option.splits)

lemma dispatch_Some_flags:
  assumes "dispatch s cur nc = Inr (Some s1)"
  shows "saw_begin_keyword_only_marker s1 =
           (saw_begin_keyword_only_marker s \<or> is_Characters ''*'' cur)"
    and "saw_extra_keywords s1 = (saw_extra_keywords s \<or> is_Characters ''**'' cur)"
    and "saw_end_position_only_marker s1 =
           (saw_end_position_only_marker s \<or> is_Characters ''/'' cur)"
  using assms
  by (auto simp: dispatch_def is_Characters_def split: if_splits option.splits)

lemma loop_body_flags:
  assumes "loop_body pos pvar s = Inr (again, s')"
  shows "saw_begin_keyword_only_marker s' =
           (saw_begin_keyword_only_marker s \<or> (\<exists>cur. reads_marker pos (cursor s) ''*'' cur))"
    and "saw_extra_keywords s' =
           (saw_extra_keywords s \<or> (\<exists>cur. reads_marker pos (cursor s) ''**'' cur))"
    and "saw_end_position_only_marker s' =
           (saw_end_position_only_marker s \<or> (\<exists>cur. reads_marker pos (cursor s) ''/'' cur))"
proof -
  from loop_body_result[OF assms] obtain cur nc where
    m: "pos (cursor s) marker_candidates = Inr cur" and
    d: "dispatch s cur nc = Inr None \<and> s' = s\<lparr> cursor := cur \<rparr>
        \<or> (\<exists>s1 cur'. dispatch s cur nc = Inr (Some s1) \<and> s' = s1\<lparr> cursor := cur' \<rparr>)"
    by blast
  have r: "(\<exists>c. reads_marker pos (cursor s) t c) = is_Characters t cur" for t
    using m by (auto simp: reads_marker_def is_Characters_def)
  from d show "saw_begin_keyword_only_marker s' =
           (saw_begin_keyword_only_marker s \<or> (\<exists>cur. reads_marker pos (cursor s) ''*'' cur))"
    using dispatch_None_flags(1)[of s cur nc] dispatch_Some_flags(1)[of s cur nc]
    by (auto simp: r)
  from d show "saw_extra_keywords s' =
           (saw_extra_keywords s \<or> (\<exists>cur. reads_marker pos (cursor s) ''**'' cur))"
    using dispatch_None_flags(2)[of s cur nc] dispatch_Some_flags(2)[of s cur nc]
    by (auto simp: r)
  from d show "saw_end_position_only_marker s' =
           (saw_end_position_only_marker s \<or> (\<exists>cur. reads_marker pos (cursor s) ''/'' cur))"
    using dispatch_None_flags(3)[of s cur nc] dispatch_Some_flags(3)[of s cur nc]
    by (auto simp: r)
qed




lemmas sample_defs = sample_cursor_def sample_parse_one_symbol_def sample_Variable_parse_def
  sample_Characters_def sample_Always_def ahead_def blanks_def is_letter_def
  marker_candidates_def separator_candidates_def Parser_parse_def Let_def

subsection \<open>The marker \<^verbatim>\<open>'/'\<close>\<close>

text \<open>
  When the marker rule reads \<^verbatim>\<open>'/'\<close>, no \<^verbatim>\<open>'/'\<close> was seen before and
  keyword-only mode is not open: every argument appended so far that is not flagged extra
  is replaced by one with the same variable that is positional and not keyword, the extra
  ones stay, and the loop goes on to the separator.
\<close>

lemma slash_marker_rewrite:
  assumes r: "reads_marker pos (cursor l) ''/'' cur" and v: "pvar cur = Inr new_cursor"
    and e: "\<not> saw_end_position_only_marker l" and k: "\<not> saw_begin_keyword_only_marker l"
    and s: "pos cur separator_candidates = Inr cur'"
  shows "\<exists>l'. loop_body pos pvar l = Inr (last_symbol cur' \<noteq> Some Always, l') \<and>
               cursor l' = cur' \<and> saw_end_position_only_marker l' \<and>
               length (arguments l') = length (arguments l) \<and>
               (\<forall>i < length (arguments l).
                  arguments l' ! i =
                    (if is_extra (arguments l ! i) then arguments l ! i
                     else \<lparr> variable = variable (arguments l ! i), is_positional = True,
                            is_keyword = False, is_extra = False \<rparr>))"
  using loop_body_slash[of pos l cur pvar new_cursor, OF r v] e k s
  by (simp add: position_only_def)

text \<open>
  A pass that does not read \<^verbatim>\<open>'/'\<close> leaves the arguments appended before it as they
  are: it only appends.
\<close>

lemma slash_marker_only:
  assumes b: "loop_body pos pvar m = Inr (again, m')"
    and n: "\<not> (\<exists>c. reads_marker pos (cursor m) ''/'' c)"
  shows "\<exists>new. arguments m' = arguments m @ new"
  using loop_body_arguments[OF b] n
  by (auto simp: reads_marker_def is_Characters_def)

text \<open>The text \<^verbatim>\<open>a, /, b\<close> on the sample grammar.\<close>

lemma example_slash_sample:
  "ArgumentList_parse sample_parse_one_symbol sample_Variable_parse
     (sample_cursor ''a, /, b'' 0 None) =
   Some (Inr \<lparr> lines = [''a, /, b''], line = 0, column = 7,
     last_symbol = Some (ArgumentList
       [\<lparr> variable = ''a'', is_positional = True, is_keyword = False, is_extra = False \<rparr>,
        \<lparr> variable = ''b'', is_positional = True, is_keyword = True, is_extra = False \<rparr>]),
     block_depth = 0 \<rparr>)"
proof -
  let ?t = "''a, /, b''"
  let ?pos = "sample_parse_one_symbol :: string parse_one_symbol"
  let ?c = "sample_cursor ?t"
  have 1: "reads_no_marker ?pos (?c 0 None) (?c 0 (Some Always))"
    by (simp add: reads_no_marker_def sample_defs)
  have 2: "reads_variable sample_Variable_parse (?c 0 (Some Always)) ''a''
      (?c 1 (Some (Variable ''a'')))"
    by (simp add: reads_variable_def sample_defs)
  have 3: "reads_comma ?pos (?c 1 (Some (Variable ''a''))) (?c 2 (Some (Characters '','')))"
    by (simp add: reads_comma_def sample_defs)
  have 4: "reads_marker ?pos (?c 2 (Some (Characters '',''))) ''/''
      (?c 4 (Some (Characters ''/'')))"
    by (simp add: reads_marker_def sample_defs)
  have 5: "sample_Variable_parse (?c 4 (Some (Characters ''/''))) =
      Inr (Some (?c 4 (Some (Characters ''/''))))"
    by (simp add: sample_defs)
  have 6: "reads_comma ?pos (?c 4 (Some (Characters ''/''))) (?c 5 (Some (Characters '','')))"
    by (simp add: reads_comma_def sample_defs)
  have 7: "reads_no_marker ?pos (?c 5 (Some (Characters '',''))) (?c 5 (Some Always))"
    by (simp add: reads_no_marker_def sample_defs)
  have 8: "reads_variable sample_Variable_parse (?c 5 (Some Always)) ''b''
      (?c 7 (Some (Variable ''b'')))"
    by (simp add: reads_variable_def sample_defs)
  have 9: "reads_end ?pos (?c 7 (Some (Variable ''b''))) (?c 7 (Some Always))"
    by (simp add: reads_end_def sample_defs)
  from example_slash[where pos = ?pos and pvar = sample_Variable_parse
      and ?c0.0 = "?c 0 None" and ?c1.0 = "?c 0 (Some Always)" and a = "''a''"
      and ?c2.0 = "?c 1 (Some (Variable ''a''))" and ?c3.0 = "?c 2 (Some (Characters '',''))"
      and ?c4.0 = "?c 4 (Some (Characters ''/''))"
      and anything = "Some (?c 4 (Some (Characters ''/'')))"
      and ?c5.0 = "?c 5 (Some (Characters '',''))" and ?c6.0 = "?c 5 (Some Always)"
      and b = "''b''" and ?c7.0 = "?c 7 (Some (Variable ''b''))"
      and ?c8.0 = "?c 7 (Some Always)"]
    1 2 3 4 5 6 7 8 9
  show ?thesis
    by (simp add: new_from_symbol_def sample_cursor_def last_line_def)
qed

lemma reads_no_variable_D:
  assumes "reads_no_variable pvar c"
  shows "\<exists>nc. pvar c = Inr (Some nc) \<and> variable_of nc = None"
  using assms by (auto simp: reads_no_variable_def split: sum.splits option.splits)

lemma slash_step_raise:
  assumes r: "reads_marker pos (cursor l) ''/'' cur" and v: "pvar cur = Inr new_cursor"
    and f: "saw_end_position_only_marker l \<or> saw_begin_keyword_only_marker l"
  shows "while_loop pos pvar l = Some (Inl TypeError)"
proof -
  from loop_body_slash[of pos l cur pvar new_cursor, OF r v] f have "loop_body pos pvar l = Inl TypeError" by auto
  then show ?thesis by (rule while_loop_raise)
qed

text \<open>A text that reads as \<^verbatim>\<open>a, /, *, /\<close>.\<close>

lemma example_slash_twice:
  assumes 1: "reads_no_marker pos c0 c1" and 2: "reads_variable pvar c1 a c2"
    and 3: "reads_comma pos c2 c3"
    and 4: "reads_marker pos c3 ''/'' c4" and 5: "pvar c4 = Inr first"
    and 6: "reads_comma pos c4 c5"
    and 7: "reads_marker pos c5 ''*'' c6" and 8: "reads_no_variable pvar c6"
    and 9: "reads_comma pos c6 c7"
    and 10: "reads_marker pos c7 ''/'' c8" and 11: "pvar c8 = Inr second"
  shows "ArgumentList_parse pos pvar c0 = Some (Inl TypeError)"
proof -
  let ?l1 = "(initial_locals c0)\<lparr> cursor := c3,
      arguments := [\<lparr> variable = a, is_positional = True, is_keyword = True, is_extra = False \<rparr>] \<rparr>"
  let ?l2 = "?l1\<lparr> cursor := c5,
      arguments := [\<lparr> variable = a, is_positional = True, is_keyword = False, is_extra = False \<rparr>],
      saw_end_position_only_marker := True \<rparr>"
  let ?l3 = "?l2\<lparr> cursor := c7, saw_begin_keyword_only_marker := True \<rparr>"
  from reads_no_variable_D[OF 8] obtain nc where nc: "pvar c6 = Inr (Some nc)"
    and nv: "variable_of nc = None" by blast
  have s1: "loop_body pos pvar (initial_locals c0) = Inr (True, ?l1)"
    using loop_body_plain_Always[of pos "initial_locals c0" c1 pvar a c2 c3] 1 2 3
    by (simp add: initial_locals_def reads_comma_def)
  have s2: "loop_body pos pvar ?l1 = Inr (True, ?l2)"
    using loop_body_slash[of pos ?l1 c4 pvar first] 4 5 6
    by (simp add: initial_locals_def reads_comma_def position_only_def)
  have s3: "loop_body pos pvar ?l2 = Inr (True, ?l3)"
    using loop_body_star[of pos ?l2 c6 pvar nc] 7 nc nv 9
    by (simp add: initial_locals_def reads_comma_def)
  have s4: "while_loop pos pvar ?l3 = Some (Inl TypeError)"
    using slash_step_raise[of pos ?l3 c8 pvar second] 10 11
    by (simp add: initial_locals_def)
  have "while_loop pos pvar (initial_locals c0) = Some (Inl TypeError)"
    using while_loop_again[OF s1] while_loop_again[OF s2] while_loop_again[OF s3] s4 by simp
  then show ?thesis
    by (simp add: ArgumentList_parse_def)
qed

text \<open>A text that reads as \<^verbatim>\<open>a, *, /\<close>.\<close>

lemma example_slash_after_star:
  assumes 1: "reads_no_marker pos c0 c1" and 2: "reads_variable pvar c1 a c2"
    and 3: "reads_comma pos c2 c3"
    and 4: "reads_marker pos c3 ''*'' c4" and 5: "reads_no_variable pvar c4"
    and 6: "reads_comma pos c4 c5"
    and 7: "reads_marker pos c5 ''/'' c6" and 8: "pvar c6 = Inr anything"
  shows "ArgumentList_parse pos pvar c0 = Some (Inl TypeError)"
proof -
  let ?l1 = "(initial_locals c0)\<lparr> cursor := c3,
      arguments := [\<lparr> variable = a, is_positional = True, is_keyword = True, is_extra = False \<rparr>] \<rparr>"
  let ?l2 = "?l1\<lparr> cursor := c5, saw_begin_keyword_only_marker := True \<rparr>"
  from reads_no_variable_D[OF 5] obtain nc where nc: "pvar c4 = Inr (Some nc)"
    and nv: "variable_of nc = None" by blast
  have s1: "loop_body pos pvar (initial_locals c0) = Inr (True, ?l1)"
    using loop_body_plain_Always[of pos "initial_locals c0" c1 pvar a c2 c3] 1 2 3
    by (simp add: initial_locals_def reads_comma_def)
  have s2: "loop_body pos pvar ?l1 = Inr (True, ?l2)"
    using loop_body_star[of pos ?l1 c4 pvar nc] 4 nc nv 6
    by (simp add: initial_locals_def reads_comma_def)
  have s3: "while_loop pos pvar ?l2 = Some (Inl TypeError)"
    using slash_step_raise[of pos ?l2 c6 pvar anything] 7 8
    by (simp add: initial_locals_def)
  have "while_loop pos pvar (initial_locals c0) = Some (Inl TypeError)"
    using while_loop_again[OF s1] while_loop_again[OF s2] s3 by simp
  then show ?thesis
    by (simp add: ArgumentList_parse_def)
qed

text \<open>
  Claim C2, on its two error cases. When the marker rule reads \<^verbatim>\<open>'/'\<close> and a
  \<^verbatim>\<open>'/'\<close> was seen before, or a \<^verbatim>\<open>'*'\<close> marker has opened keyword-only mode, the
  code comes to \<^verbatim>\<open>raise parser_module.ParseError(message, cursor)\<close>. The call
  \<^verbatim>\<open>ParseError(message, cursor)\<close> raises \<^verbatim>\<open>TypeError\<close>, so the parse ends with
  \<^verbatim>\<open>TypeError\<close>, which is not a \<^verbatim>\<open>ParseError\<close>: the claim has a fatal parse error
  there. So it is on a text that reads as \<^verbatim>\<open>a, /, *, /\<close> and on one that reads as
  \<^verbatim>\<open>a, *, /\<close>. The rest of the claim holds of the code: lemmas
  \<open>slash_marker_rewrite\<close>, \<open>slash_marker_only\<close> and \<open>example_slash\<close>.
\<close>

theorem slash_marker_TypeError:
  "(reads_marker pos (cursor l) ''/'' cur \<longrightarrow> pvar cur = Inr new_cursor \<longrightarrow>
      saw_end_position_only_marker l \<or> saw_begin_keyword_only_marker l \<longrightarrow>
      while_loop pos pvar l = Some (Inl TypeError))
   \<and> \<not> is_ParseError (TypeError :: ('v parser, marker_type) error)
   \<and> (reads_no_marker pos c0 c1 \<longrightarrow> reads_variable pvar c1 a c2 \<longrightarrow> reads_comma pos c2 c3 \<longrightarrow>
        reads_marker pos c3 ''/'' c4 \<longrightarrow> pvar c4 = Inr first \<longrightarrow> reads_comma pos c4 c5 \<longrightarrow>
        reads_marker pos c5 ''*'' c6 \<longrightarrow> reads_no_variable pvar c6 \<longrightarrow> reads_comma pos c6 c7 \<longrightarrow>
        reads_marker pos c7 ''/'' c8 \<longrightarrow> pvar c8 = Inr second \<longrightarrow>
        ArgumentList_parse pos pvar c0 = Some (Inl TypeError))
   \<and> (reads_no_marker pos d0 d1 \<longrightarrow> reads_variable pvar d1 b d2 \<longrightarrow> reads_comma pos d2 d3 \<longrightarrow>
        reads_marker pos d3 ''*'' d4 \<longrightarrow> reads_no_variable pvar d4 \<longrightarrow> reads_comma pos d4 d5 \<longrightarrow>
        reads_marker pos d5 ''/'' d6 \<longrightarrow> pvar d6 = Inr anything \<longrightarrow>
        ArgumentList_parse pos pvar d0 = Some (Inl TypeError))"
  for pos :: "'v parse_one_symbol"
proof (intro conjI impI)
  assume "reads_marker pos (cursor l) ''/'' cur" and "pvar cur = Inr new_cursor"
    and "saw_end_position_only_marker l \<or> saw_begin_keyword_only_marker l"
  then show "while_loop pos pvar l = Some (Inl TypeError)"
    by (rule slash_step_raise)
next
  show "\<not> is_ParseError (TypeError :: ('v parser, marker_type) error)"
    by simp
next
  assume "reads_no_marker pos c0 c1" "reads_variable pvar c1 a c2" "reads_comma pos c2 c3"
    "reads_marker pos c3 ''/'' c4" "pvar c4 = Inr first" "reads_comma pos c4 c5"
    "reads_marker pos c5 ''*'' c6" "reads_no_variable pvar c6" "reads_comma pos c6 c7"
    "reads_marker pos c7 ''/'' c8" "pvar c8 = Inr second"
  then show "ArgumentList_parse pos pvar c0 = Some (Inl TypeError)"
    by (rule example_slash_twice)
next
  assume "reads_no_marker pos d0 d1" "reads_variable pvar d1 b d2" "reads_comma pos d2 d3"
    "reads_marker pos d3 ''*'' d4" "reads_no_variable pvar d4" "reads_comma pos d4 d5"
    "reads_marker pos d5 ''/'' d6" "pvar d6 = Inr anything"
  then show "ArgumentList_parse pos pvar d0 = Some (Inl TypeError)"
    by (rule example_slash_after_star)
qed

theorem slash_marker_TypeError_witness:
  "ArgumentList_parse sample_parse_one_symbol sample_Variable_parse
     (sample_cursor ''a, /, *, /'' 0 None) = Some (Inl TypeError)
   \<and> ArgumentList_parse sample_parse_one_symbol sample_Variable_parse
     (sample_cursor ''a, *, /'' 0 None) = Some (Inl TypeError)"
proof -
  let ?pos = "sample_parse_one_symbol :: string parse_one_symbol"
  let ?c = "sample_cursor ''a, /, *, /''"
  let ?d = "sample_cursor ''a, *, /''"
  have 1: "reads_no_marker ?pos (?c 0 None) (?c 0 (Some Always))"
    by (simp add: reads_no_marker_def sample_defs)
  have 2: "reads_variable sample_Variable_parse (?c 0 (Some Always)) ''a''
      (?c 1 (Some (Variable ''a'')))"
    by (simp add: reads_variable_def sample_defs)
  have 3: "reads_comma ?pos (?c 1 (Some (Variable ''a''))) (?c 2 (Some (Characters '','')))"
    by (simp add: reads_comma_def sample_defs)
  have 4: "reads_marker ?pos (?c 2 (Some (Characters '',''))) ''/''
      (?c 4 (Some (Characters ''/'')))"
    by (simp add: reads_marker_def sample_defs)
  have 5: "sample_Variable_parse (?c 4 (Some (Characters ''/''))) =
      Inr (Some (?c 4 (Some (Characters ''/''))))"
    by (simp add: sample_defs)
  have 6: "reads_comma ?pos (?c 4 (Some (Characters ''/''))) (?c 5 (Some (Characters '','')))"
    by (simp add: reads_comma_def sample_defs)
  have 7: "reads_marker ?pos (?c 5 (Some (Characters '',''))) ''*''
      (?c 7 (Some (Characters ''*'')))"
    by (simp add: reads_marker_def sample_defs)
  have 8: "reads_no_variable sample_Variable_parse (?c 7 (Some (Characters ''*'')))"
    by (simp add: reads_no_variable_def sample_defs)
  have 9: "reads_comma ?pos (?c 7 (Some (Characters ''*''))) (?c 8 (Some (Characters '','')))"
    by (simp add: reads_comma_def sample_defs)
  have 10: "reads_marker ?pos (?c 8 (Some (Characters '',''))) ''/''
      (?c 10 (Some (Characters ''/'')))"
    by (simp add: reads_marker_def sample_defs)
  have 11: "sample_Variable_parse (?c 10 (Some (Characters ''/''))) =
      Inr (Some (?c 10 (Some (Characters ''/''))))"
    by (simp add: sample_defs)
  have d1: "reads_no_marker ?pos (?d 0 None) (?d 0 (Some Always))"
    by (simp add: reads_no_marker_def sample_defs)
  have d2: "reads_variable sample_Variable_parse (?d 0 (Some Always)) ''a''
      (?d 1 (Some (Variable ''a'')))"
    by (simp add: reads_variable_def sample_defs)
  have d3: "reads_comma ?pos (?d 1 (Some (Variable ''a''))) (?d 2 (Some (Characters '','')))"
    by (simp add: reads_comma_def sample_defs)
  have d4: "reads_marker ?pos (?d 2 (Some (Characters '',''))) ''*''
      (?d 4 (Some (Characters ''*'')))"
    by (simp add: reads_marker_def sample_defs)
  have d5: "reads_no_variable sample_Variable_parse (?d 4 (Some (Characters ''*'')))"
    by (simp add: reads_no_variable_def sample_defs)
  have d6: "reads_comma ?pos (?d 4 (Some (Characters ''*''))) (?d 5 (Some (Characters '','')))"
    by (simp add: reads_comma_def sample_defs)
  have d7: "reads_marker ?pos (?d 5 (Some (Characters '',''))) ''/''
      (?d 7 (Some (Characters ''/'')))"
    by (simp add: reads_marker_def sample_defs)
  have d8: "sample_Variable_parse (?d 7 (Some (Characters ''/''))) =
      Inr (Some (?d 7 (Some (Characters ''/''))))"
    by (simp add: sample_defs)
  note t = slash_marker_TypeError[where pos = ?pos and pvar = sample_Variable_parse,
      THEN conjunct2, THEN conjunct2]
  from t[THEN conjunct1, rule_format, OF 1 2 3 4 5 6 7 8 9 10 11]
    t[THEN conjunct2, rule_format, OF d1 d2 d3 d4 d5 d6 d7 d8]
  show ?thesis by simp
qed

subsection \<open>The marker \<^verbatim>\<open>'*'\<close>\<close>






subsection \<open>The marker \<^verbatim>\<open>'**'\<close>\<close>

text \<open>
  When the marker rule reads \<^verbatim>\<open>'**'\<close>, a variable follows and no \<^verbatim>\<open>'**'\<close>
  argument was appended before: the variable is appended as keyword and extra, not
  positional. The flag for it is unset at the start and set after a pass exactly when it
  was set before or the pass read \<^verbatim>\<open>'**'\<close>.
\<close>

lemma double_star_marker_append:
  assumes r: "reads_marker pos (cursor l) ''**'' cur" and v: "pvar cur = Inr (Some nc)"
    and w: "variable_of nc = Some x" and e: "\<not> saw_extra_keywords l"
    and s: "pos nc separator_candidates = Inr cur'"
  shows "loop_body pos pvar l =
           Inr (last_symbol cur' \<noteq> Some Always,
                l\<lparr> cursor := cur',
                   arguments := arguments l @
                     [\<lparr> variable = x, is_positional = False, is_keyword = True,
                        is_extra = True \<rparr>],
                   saw_extra_keywords := True \<rparr>)"
  using loop_body_double_star[of pos l cur pvar nc, OF r v] w e s by simp

lemma double_star_flag:
  "\<not> saw_extra_keywords (initial_locals c)"
  "loop_body pos pvar s = Inr (again, s') \<Longrightarrow>
     saw_extra_keywords s' =
       (saw_extra_keywords s \<or> (\<exists>x. reads_marker pos (cursor s) ''**'' x))"
  by (simp add: initial_locals_def) (rule loop_body_flags(2))

lemma double_star_step_raise:
  assumes r: "reads_marker pos (cursor l) ''**'' cur" and v: "pvar cur = Inr (Some nc)"
    and f: "variable_of nc = None \<or> saw_extra_keywords l"
  shows "while_loop pos pvar l = Some (Inl TypeError)"
proof -
  from loop_body_double_star[of pos l cur pvar nc, OF r v] f have "loop_body pos pvar l = Inl TypeError"
    by (cases "variable_of nc") auto
  then show ?thesis by (rule while_loop_raise)
qed

text \<open>A text that reads as \<^verbatim>\<open>**\<close> with no variable after it.\<close>

lemma example_double_star_alone:
  assumes 1: "reads_marker pos c0 ''**'' c1" and 2: "reads_no_variable pvar c1"
  shows "ArgumentList_parse pos pvar c0 = Some (Inl TypeError)"
proof -
  from reads_no_variable_D[OF 2] obtain nc where nc: "pvar c1 = Inr (Some nc)"
    and nv: "variable_of nc = None" by blast
  have r: "reads_marker pos (cursor (initial_locals c0)) ''**'' c1"
    using 1 by (simp add: initial_locals_def)
  from double_star_step_raise[of pos "initial_locals c0" c1 pvar nc] r nc nv
  have "while_loop pos pvar (initial_locals c0) = Some (Inl TypeError)" by simp
  then show ?thesis by (simp add: ArgumentList_parse_def)
qed

text \<open>A text that reads as \<^verbatim>\<open>**k, **m\<close>.\<close>

lemma example_double_star_twice:
  assumes 1: "reads_marker pos c0 ''**'' c1" and 2: "reads_variable pvar c1 k c2"
    and 3: "reads_comma pos c2 c3"
    and 4: "reads_marker pos c3 ''**'' c4" and 5: "reads_variable pvar c4 m c5"
  shows "ArgumentList_parse pos pvar c0 = Some (Inl TypeError)"
proof -
  let ?l1 = "(initial_locals c0)\<lparr> cursor := c3,
      arguments := [\<lparr> variable = k, is_positional = False, is_keyword = True, is_extra = True \<rparr>],
      saw_extra_keywords := True \<rparr>"
  have v1: "pvar c1 = Inr (Some c2)" "variable_of c2 = Some k"
    using 2 by (simp_all add: reads_variable_def)
  have v2: "pvar c4 = Inr (Some c5)" "variable_of c5 = Some m"
    using 5 by (simp_all add: reads_variable_def)
  have s1: "loop_body pos pvar (initial_locals c0) = Inr (True, ?l1)"
    using loop_body_double_star[of pos "initial_locals c0" c1 pvar c2] 1 v1 3
    by (simp add: initial_locals_def reads_comma_def)
  have s2: "while_loop pos pvar ?l1 = Some (Inl TypeError)"
    using double_star_step_raise[of pos ?l1 c4 pvar c5] 4 v2
    by (simp add: initial_locals_def)
  have "while_loop pos pvar (initial_locals c0) = Some (Inl TypeError)"
    using while_loop_again[OF s1] s2 by simp
  then show ?thesis by (simp add: ArgumentList_parse_def)
qed

text \<open>
  Claim C8, on its two error cases. When the marker rule reads \<^verbatim>\<open>'**'\<close> and the
  variable rule returns a cursor whose last symbol is not a variable, the code comes to
  \<^verbatim>\<open>raise parser_module.ParseError('expected Variable')\<close>; when a variable follows and a
  \<^verbatim>\<open>'**'\<close> argument was appended before, it comes to
  \<^verbatim>\<open>raise parser_module.ParseError('multiple "extra keyword" arguments found', cursor)\<close>.
  In both the call of \<^verbatim>\<open>ParseError\<close> raises \<^verbatim>\<open>TypeError\<close>, so the parse ends with
  \<^verbatim>\<open>TypeError\<close>, which is not a \<^verbatim>\<open>ParseError\<close> and carries neither message: the claim
  has a fatal parse error with the message there. So it is on a text that reads as
  \<^verbatim>\<open>**\<close> with no variable, and on one that reads as \<^verbatim>\<open>**k, **m\<close>. The rest of the
  claim holds of the code: lemmas \<open>double_star_marker_append\<close> and \<open>double_star_flag\<close>.
\<close>

theorem double_star_marker_TypeError:
  "(reads_marker pos (cursor l) ''**'' cur \<longrightarrow> pvar cur = Inr (Some nc) \<longrightarrow>
      variable_of nc = None \<or> saw_extra_keywords l \<longrightarrow>
      while_loop pos pvar l = Some (Inl TypeError))
   \<and> \<not> is_ParseError (TypeError :: ('v parser, marker_type) error)
   \<and> (reads_marker pos c0 ''**'' c1 \<longrightarrow> reads_no_variable pvar c1 \<longrightarrow>
        ArgumentList_parse pos pvar c0 = Some (Inl TypeError))
   \<and> (reads_marker pos d0 ''**'' d1 \<longrightarrow> reads_variable pvar d1 k d2 \<longrightarrow>
        reads_comma pos d2 d3 \<longrightarrow>
        reads_marker pos d3 ''**'' d4 \<longrightarrow> reads_variable pvar d4 m d5 \<longrightarrow>
        ArgumentList_parse pos pvar d0 = Some (Inl TypeError))"
  for pos :: "'v parse_one_symbol"
proof (intro conjI impI)
  assume "reads_marker pos (cursor l) ''**'' cur" and "pvar cur = Inr (Some nc)"
    and "variable_of nc = None \<or> saw_extra_keywords l"
  then show "while_loop pos pvar l = Some (Inl TypeError)"
    by (rule double_star_step_raise)
next
  show "\<not> is_ParseError (TypeError :: ('v parser, marker_type) error)"
    by simp
next
  assume "reads_marker pos c0 ''**'' c1" and "reads_no_variable pvar c1"
  then show "ArgumentList_parse pos pvar c0 = Some (Inl TypeError)"
    by (rule example_double_star_alone)
next
  assume "reads_marker pos d0 ''**'' d1" "reads_variable pvar d1 k d2" "reads_comma pos d2 d3"
    "reads_marker pos d3 ''**'' d4" "reads_variable pvar d4 m d5"
  then show "ArgumentList_parse pos pvar d0 = Some (Inl TypeError)"
    by (rule example_double_star_twice)
qed

theorem double_star_marker_TypeError_witness:
  "ArgumentList_parse sample_parse_one_symbol sample_Variable_parse
     (sample_cursor ''**'' 0 None) = Some (Inl TypeError)
   \<and> ArgumentList_parse sample_parse_one_symbol sample_Variable_parse
     (sample_cursor ''**k, **m'' 0 None) = Some (Inl TypeError)"
proof -
  let ?pos = "sample_parse_one_symbol :: string parse_one_symbol"
  let ?c = "sample_cursor ''**''"
  let ?d = "sample_cursor ''**k, **m''"
  have 1: "reads_marker ?pos (?c 0 None) ''**'' (?c 2 (Some (Characters ''**'')))"
    by (simp add: reads_marker_def sample_defs)
  have 2: "reads_no_variable sample_Variable_parse (?c 2 (Some (Characters ''**'')))"
    by (simp add: reads_no_variable_def sample_defs)
  have d1: "reads_marker ?pos (?d 0 None) ''**'' (?d 2 (Some (Characters ''**'')))"
    by (simp add: reads_marker_def sample_defs)
  have d2: "reads_variable sample_Variable_parse (?d 2 (Some (Characters ''**''))) ''k''
      (?d 3 (Some (Variable ''k'')))"
    by (simp add: reads_variable_def sample_defs)
  have d3: "reads_comma ?pos (?d 3 (Some (Variable ''k''))) (?d 4 (Some (Characters '','')))"
    by (simp add: reads_comma_def sample_defs)
  have d4: "reads_marker ?pos (?d 4 (Some (Characters '',''))) ''**''
      (?d 7 (Some (Characters ''**'')))"
    by (simp add: reads_marker_def sample_defs)
  have d5: "reads_variable sample_Variable_parse (?d 7 (Some (Characters ''**''))) ''m''
      (?d 8 (Some (Variable ''m'')))"
    by (simp add: reads_variable_def sample_defs)
  note t = double_star_marker_TypeError[where pos = ?pos and pvar = sample_Variable_parse,
      THEN conjunct2, THEN conjunct2]
  from t[THEN conjunct1, rule_format, OF 1 2] t[THEN conjunct2, rule_format, OF d1 d2 d3 d4 d5]
  show ?thesis by simp
qed

text \<open>
  The statements on \<^verbatim>\<open>'*'\<close> and \<^verbatim>\<open>'**'\<close> are about a variable rule that returns a
  cursor. Where it returns \<^verbatim>\<open>None\<close> after one of these markers, reading
  \<^verbatim>\<open>new_cursor.last_symbol\<close> raises \<^verbatim>\<open>AttributeError\<close> (lemma \<open>loop_body_None\<close>).
\<close>

end
